theory Spec2Isabelle
  imports Complex_Main "HOL-Library.Monad_Syntax"
begin

section \<open>JavaScript values and the platform functions the program calls\<close>

text \<open>
  The front end is JavaScript. The values that flow through the streaming pipeline are the
  results of \<^verbatim>\<open>JSON.parse\<close> and the objects built from them, so they are modelled by one
  datatype of JavaScript values. Numbers are IEEE doubles on the platform; the model keeps
  their carrier abstract as the type parameter \<open>'n\<close>. An object is an association list in
  insertion order, read with \<open>map_of\<close>. Strings are lists of 8-bit code units.
\<close>

datatype 'n jsval =
    JUndefined
  | JNull
  | JBool bool
  | JNum 'n
  | JStr string
  | JArr "'n jsval list"
  | JObj "(string \<times> 'n jsval) list"

text \<open>
  \<^verbatim>\<open>JSON.parse\<close>, \<^verbatim>\<open>JSON.stringify(v, null, 2)\<close>, the conversion of a number to a string,
  the test whether a number is falsy (zero or NaN), \<^verbatim>\<open>parseFloat\<close> and \<^verbatim>\<open>parseInt\<close> belong to
  the JavaScript platform, not to the repository. The model takes them as a record of
  functions, so every theorem that leaves the record free holds for any implementation of
  them. \<open>JSON_parse\<close> returns \<open>None\<close> where \<^verbatim>\<open>JSON.parse\<close> throws a SyntaxError.
\<close>

record 'n platform =
  JSON_parse :: "string \<Rightarrow> 'n jsval option"
  JSON_stringify2 :: "'n jsval \<Rightarrow> string"
  Number_toString :: "'n \<Rightarrow> string"
  Number_falsy :: "'n \<Rightarrow> bool"
  parseFloat :: "string \<Rightarrow> 'n"
  parseInt :: "string \<Rightarrow> 'n"

text \<open>
  Property read \<^verbatim>\<open>v.k\<close>. Reading a property of \<^verbatim>\<open>null\<close> or \<^verbatim>\<open>undefined\<close> throws a
  TypeError (\<open>None\<close>); a missing property reads as \<^verbatim>\<open>undefined\<close>. The program only reads
  the names \<^verbatim>\<open>type\<close>, \<^verbatim>\<open>run_id\<close>, \<^verbatim>\<open>status\<close>, \<^verbatim>\<open>content\<close>, \<^verbatim>\<open>thread_id\<close>, \<^verbatim>\<open>error\<close>,
  \<^verbatim>\<open>scores\<close>, \<^verbatim>\<open>property\<close>, \<^verbatim>\<open>financial_audit\<close> and the score aliases, none of which is a
  member of a built-in prototype, so a primitive or an array has none of them.
\<close>

fun getprop :: "'n jsval \<Rightarrow> string \<Rightarrow> 'n jsval option" where
  "getprop JUndefined k = None"
| "getprop JNull k = None"
| "getprop (JObj kvs) k = Some (case map_of kvs k of None \<Rightarrow> JUndefined | Some v \<Rightarrow> v)"
| "getprop (JBool b) k = Some JUndefined"
| "getprop (JNum n) k = Some JUndefined"
| "getprop (JStr s) k = Some JUndefined"
| "getprop (JArr xs) k = Some JUndefined"

text \<open>Truthiness (\<^verbatim>\<open>ToBoolean\<close>): what \<^verbatim>\<open>if (v)\<close>, \<^verbatim>\<open>v && w\<close> and \<^verbatim>\<open>!v\<close> test.\<close>

fun truthy :: "'n platform \<Rightarrow> 'n jsval \<Rightarrow> bool" where
  "truthy P JUndefined = False"
| "truthy P JNull = False"
| "truthy P (JBool b) = b"
| "truthy P (JNum n) = (\<not> Number_falsy P n)"
| "truthy P (JStr s) = (s \<noteq> [])"
| "truthy P (JArr xs) = True"
| "truthy P (JObj kvs) = True"

section \<open>String operations of the platform\<close>

text \<open>
  \<^verbatim>\<open>String.prototype.startsWith\<close>, \<^verbatim>\<open>includes\<close>, \<^verbatim>\<open>trim\<close>, \<^verbatim>\<open>split\<close> with a one-character
  separator and \<^verbatim>\<open>Array.prototype.join\<close>. \<open>is_space\<close> is the set that \<^verbatim>\<open>trim\<close> strips and
  that \<^verbatim>\<open>\s\<close> matches (white space and line terminators), restricted to 8-bit code units.
\<close>

definition nl :: char where
  "nl = CHR 0x0A"

definition dq :: char where
  "dq = CHR 0x22"

definition bsl :: char where
  "bsl = CHR 0x5C"

definition startsWith :: "string \<Rightarrow> string \<Rightarrow> bool" where
  "startsWith s p = (take (length p) s = p)"

fun includes_str :: "string \<Rightarrow> string \<Rightarrow> bool" where
  "includes_str [] m = (m = [])"
| "includes_str (c # cs) m = (startsWith (c # cs) m \<or> includes_str cs m)"

definition is_space :: "char \<Rightarrow> bool" where
  "is_space c = (c \<in> set [CHR 0x09, CHR 0x0A, CHR 0x0B, CHR 0x0C, CHR 0x0D, CHR 0x20, CHR 0xA0])"

definition is_digit :: "char \<Rightarrow> bool" where
  "is_digit c = (c \<in> set ''0123456789'')"

definition trim :: "string \<Rightarrow> string" where
  "trim s = rev (dropWhile is_space (rev (dropWhile is_space s)))"

text \<open>\<^verbatim>\<open>s.split(sep)\<close> never returns an empty array: the empty string splits into \<^verbatim>\<open>['']\<close>.\<close>

fun split_on :: "char \<Rightarrow> string \<Rightarrow> string list" where
  "split_on sep [] = [[]]"
| "split_on sep (c # cs) =
     (if c = sep then [] # split_on sep cs
      else (case split_on sep cs of
              [] \<Rightarrow> [[c]]
            | l # ls \<Rightarrow> (c # l) # ls))"

fun join :: "string \<Rightarrow> string list \<Rightarrow> string" where
  "join sep [] = []"
| "join sep [x] = x"
| "join sep (x # y # ys) = x @ sep @ join sep (y # ys)"

text \<open>
  \<^verbatim>\<open>ToString\<close>, applied where a value is used as a string (\<^verbatim>\<open>JSON.parse(v)\<close> on a value that
  is not a string). An array joins its elements with commas, \<^verbatim>\<open>null\<close> and \<^verbatim>\<open>undefined\<close>
  elements as empty strings; a plain object is \<^verbatim>\<open>[object Object]\<close>.
\<close>

fun ToString :: "'n platform \<Rightarrow> 'n jsval \<Rightarrow> string" where
  "ToString P JUndefined = ''undefined''"
| "ToString P JNull = ''null''"
| "ToString P (JBool b) = (if b then ''true'' else ''false'')"
| "ToString P (JNum n) = Number_toString P n"
| "ToString P (JStr s) = s"
| "ToString P (JArr xs) =
     join '','' (map (\<lambda>x. if x = JNull \<or> x = JUndefined then [] else ToString P x) xs)"
| "ToString P (JObj kvs) = ''[object Object]''"

text \<open>
  Defining a property: a key that is already there keeps its place and takes the new value
  (a repeated key in JSON text, and a later key of an object literal with a spread).
\<close>

fun obj_put :: "(string \<times> 'a) list \<Rightarrow> string \<Rightarrow> 'a \<Rightarrow> (string \<times> 'a) list" where
  "obj_put [] k v = [(k, v)]"
| "obj_put ((k', v') # kvs) k v =
     (if k' = k then (k', v) # kvs else (k', v') # obj_put kvs k v)"

text \<open>
  Object spread \<^verbatim>\<open>{...v}\<close>: the own enumerable properties of the value. A string and an
  array spread into their elements under the decimal indices; other primitives have none.
\<close>

fun show_nat :: "nat \<Rightarrow> string" where
  "show_nat n =
     (if n < 10 then [''0123456789'' ! n]
      else show_nat (n div 10) @ [''0123456789'' ! (n mod 10)])"

declare show_nat.simps [simp del]

fun indexed :: "nat \<Rightarrow> 'a list \<Rightarrow> (string \<times> 'a) list" where
  "indexed i [] = []"
| "indexed i (x # xs) = (show_nat i, x) # indexed (Suc i) xs"

fun spread :: "'n jsval \<Rightarrow> (string \<times> 'n jsval) list" where
  "spread (JObj kvs) = kvs"
| "spread (JArr xs) = indexed 0 xs"
| "spread (JStr s) = indexed 0 (map (\<lambda>c. JStr [c]) s)"
| "spread JUndefined = []"
| "spread JNull = []"
| "spread (JBool b) = []"
| "spread (JNum n) = []"

text \<open>The operators \<^verbatim>\<open>a ?? b\<close> and \<^verbatim>\<open>v?.k\<close>.\<close>

definition nullish :: "'n jsval \<Rightarrow> bool" where
  "nullish v = (v = JNull \<or> v = JUndefined)"

definition coalesce :: "'n jsval \<Rightarrow> 'n jsval \<Rightarrow> 'n jsval" where
  "coalesce a b = (if nullish a then b else a)"

definition optprop :: "'n jsval \<Rightarrow> string \<Rightarrow> 'n jsval" where
  "optprop v k = (case getprop v k of None \<Rightarrow> JUndefined | Some x \<Rightarrow> x)"

section \<open>Stream decoder (services/api.js, streamWatsonAnalysis)\<close>

text \<open>
  What the reader hands to its four callbacks, in call order. \<open>Connected\<close> stands for the
  \<^verbatim>\<open>console.log\<close> of the \<^verbatim>\<open>connected\<close> branch, which has no callback; \<open>Status\<close>, \<open>Message\<close>,
  \<open>Done\<close> and \<open>Error\<close> are the calls of \<^verbatim>\<open>onStatus\<close>, \<^verbatim>\<open>onMessage\<close>, \<^verbatim>\<open>onComplete\<close> and
  \<^verbatim>\<open>onError\<close> with their argument.
\<close>

datatype 'n event =
    Connected "'n jsval"
  | Status "'n jsval"
  | Message "'n jsval"
  | Done "'n jsval"
  | Error "'n jsval"

text \<open>
  The \<^verbatim>\<open>message\<close> branch: \<^verbatim>\<open>JSON.parse(content)\<close> converts its argument to a string first;
  when it succeeds the content becomes \<^verbatim>\<open>JSON.stringify(contentObj, null, 2)\<close>, when it
  throws the content stays as it is.
\<close>

definition deliver :: "'n platform \<Rightarrow> 'n jsval \<Rightarrow> 'n jsval" where
  "deliver P content =
     (case JSON_parse P (ToString P content) of
        Some contentObj \<Rightarrow> JStr (JSON_stringify2 P contentObj)
      | None \<Rightarrow> content)"

text \<open>
  The body of the \<^verbatim>\<open>try\<close> block run on the payload of one \<^verbatim>\<open>data: \<close> line. \<open>None\<close> is an
  exception (the SyntaxError of \<^verbatim>\<open>JSON.parse\<close>, the TypeError of \<^verbatim>\<open>parsed.type\<close> on
  \<^verbatim>\<open>null\<close>), which the \<^verbatim>\<open>catch\<close> logs.
\<close>

definition dispatch :: "'n platform \<Rightarrow> string \<Rightarrow> 'n event list option" where
  "dispatch P data =
     do {
       parsed \<leftarrow> JSON_parse P data;
       t \<leftarrow> getprop parsed ''type'';
       if t = JStr ''connected'' then
         do { r \<leftarrow> getprop parsed ''run_id''; Some [Connected r] }
       else if t = JStr ''status'' then
         do { s \<leftarrow> getprop parsed ''status''; Some [Status s] }
       else if t = JStr ''message'' then
         do { c \<leftarrow> getprop parsed ''content''; Some [Message (deliver P c)] }
       else if t = JStr ''done'' then
         do { i \<leftarrow> getprop parsed ''thread_id''; Some [Done i] }
       else if t = JStr ''error'' then
         do { e \<leftarrow> getprop parsed ''error''; Some [Error e] }
       else Some []
     }"

text \<open>The body of \<^verbatim>\<open>for (const line of lines)\<close>.\<close>

definition process_line :: "'n platform \<Rightarrow> string \<Rightarrow> 'n event list" where
  "process_line P line =
     (if startsWith line ''data: '' then
        (let data = trim (drop 6 line)
         in if data = [] then []
            else (case dispatch P data of None \<Rightarrow> [] | Some evs \<Rightarrow> evs))
      else [])"

text \<open>
  \<^verbatim>\<open>decoder.decode(value, { stream: true })\<close> is the platform's \<^verbatim>\<open>TextDecoder\<close>: a function
  of the decoder's internal state (the bytes of an unfinished character) and the chunk read,
  giving the decoded text and the next state. The model takes it as a parameter; \<open>'b\<close> is
  the type of a byte.
\<close>

type_synonym ('d, 'b) text_decoder = "'d \<Rightarrow> 'b list \<Rightarrow> string \<times> 'd"

text \<open>
  One turn of \<^verbatim>\<open>while (true)\<close> after a successful read: append the decoded text to the
  buffer, split at newlines, keep the last piece as the new buffer (\<^verbatim>\<open>lines.pop()\<close>) and
  process the others in order.
\<close>

definition on_read ::
  "'n platform \<Rightarrow> ('d, 'b) text_decoder \<Rightarrow> 'd \<times> string \<Rightarrow> 'b list \<Rightarrow>
     'n event list \<times> ('d \<times> string)" where
  "on_read P decode st v =
     (case st of (d, buffer) \<Rightarrow>
        (case decode d v of (text, d') \<Rightarrow>
           (let lines = split_on nl (buffer @ text)
            in (concat (map (process_line P) (butlast lines)), (d', last lines)))))"

text \<open>
  How the request ends other than by \<^verbatim>\<open>done\<close>: a rejected \<^verbatim>\<open>fetch\<close> or \<^verbatim>\<open>read\<close>. The outer
  \<^verbatim>\<open>catch\<close> only logs an AbortError and reports the message of any other error.
\<close>

datatype failure = AbortError | OtherError string

fun on_failure :: "failure option \<Rightarrow> 'n event list" where
  "on_failure None = []"
| "on_failure (Some AbortError) = []"
| "on_failure (Some (OtherError m)) = [Error (JStr m)]"

text \<open>
  The read loop over the chunks the body delivers. After the last chunk \<^verbatim>\<open>reader.read()\<close>
  either reports \<^verbatim>\<open>done\<close> (\<open>None\<close>), and the loop breaks with the buffer left unread, or
  rejects.
\<close>

fun read_loop ::
  "'n platform \<Rightarrow> ('d, 'b) text_decoder \<Rightarrow> 'd \<times> string \<Rightarrow> 'b list list \<Rightarrow>
     failure option \<Rightarrow> 'n event list" where
  "read_loop P decode st [] e = on_failure e"
| "read_loop P decode st (v # vs) e =
     (case on_read P decode st v of (evs, st') \<Rightarrow> evs @ read_loop P decode st' vs e)"

text \<open>
  The response of \<^verbatim>\<open>fetch\<close>: rejected, answered with a status that is not ok (the status
  as decimal digits), or answered with a body that delivers chunks and then ends.
  \<open>streamRequest\<close> is the asynchronous function of that name inside
  \<^verbatim>\<open>streamWatsonAnalysis\<close>, as the list of callback calls it makes.
\<close>

datatype 'b response = Rejected failure | NotOk string | Ok "'b list list" "failure option"

fun streamRequest ::
  "'n platform \<Rightarrow> ('d, 'b) text_decoder \<Rightarrow> 'd \<Rightarrow> 'b response \<Rightarrow> 'n event list" where
  "streamRequest P decode d0 (Rejected f) = on_failure (Some f)"
| "streamRequest P decode d0 (NotOk status) =
     [Error (JStr (''HTTP error! status: '' @ status))]"
| "streamRequest P decode d0 (Ok reads e) = read_loop P decode (d0, []) reads e"

text \<open>
  A streaming decoder gives the same text however its input is cut: decoding nothing gives
  nothing, and decoding \<open>a @ b\<close> is decoding \<open>a\<close> and then \<open>b\<close> from the state \<open>a\<close> left.
  This is the contract of \<^verbatim>\<open>TextDecoder\<close> in stream mode.
\<close>

definition streaming :: "('d, 'b) text_decoder \<Rightarrow> bool" where
  "streaming decode \<longleftrightarrow>
     (\<forall>d. decode d [] = ([], d)) \<and>
     (\<forall>d a b. decode d (a @ b) =
        (case decode d a of (x, d') \<Rightarrow> (case decode d' b of (y, d'') \<Rightarrow> (x @ y, d''))))"

section \<open>Chunk classifier and report accumulator (PropertyDetail.jsx, triggerWatsonAnalysis)\<close>

text \<open>
  The \<^verbatim>\<open>onMessage\<close> callback that \<^verbatim>\<open>triggerWatsonAnalysis\<close> passes to the stream reader.
  Its \<^verbatim>\<open>try\<close> block parses the message and tests the parsed value; a SyntaxError of
  \<^verbatim>\<open>JSON.parse\<close> and a TypeError of \<^verbatim>\<open>parsed.scores\<close> on \<^verbatim>\<open>null\<close> both land in the empty
  \<^verbatim>\<open>catch\<close> and fall through to the append. The message is a string here; the callback
  uses a message that is not a string only through its conversion to one.
\<close>

datatype chunk_class = Final | Partial | Incremental

definition classify :: "'n platform \<Rightarrow> string \<Rightarrow> chunk_class" where
  "classify P message =
     (case JSON_parse P message of
        None \<Rightarrow> Incremental
      | Some parsed \<Rightarrow>
          (case getprop parsed ''scores'' of
             None \<Rightarrow> Incremental
           | Some scores \<Rightarrow>
               if truthy P scores \<and>
                  (getprop scores ''overall_transparency_grade'' \<noteq> Some JUndefined \<or>
                   getprop scores ''overall_grade'' \<noteq> Some JUndefined)
               then Final
               else if (case getprop parsed ''property'' of
                          None \<Rightarrow> False | Some p \<Rightarrow> truthy P p) \<or> truthy P scores
               then Partial
               else Incremental))"

text \<open>The state updater \<^verbatim>\<open>(prev) => prev.includes(message) ? prev : prev + message\<close>.\<close>

definition appendIncremental :: "string \<Rightarrow> string \<Rightarrow> string" where
  "appendIncremental prev message = (if includes_str prev message then prev else prev @ message)"

text \<open>
  The callback as a transformer of the \<^verbatim>\<open>watsonResponse\<close> state: a final report replaces
  the state, partial JSON returns without touching it, anything else is appended.
\<close>

definition onMessage :: "'n platform \<Rightarrow> string \<Rightarrow> string \<Rightarrow> string" where
  "onMessage P message prev =
     (case classify P message of
        Final \<Rightarrow> message
      | Partial \<Rightarrow> prev
      | Incremental \<Rightarrow> appendIncremental prev message)"

text \<open>
  \<^verbatim>\<open>triggerWatsonAnalysis\<close> resets the state to the empty string and then the callback runs
  once per message, in arrival order.
\<close>

definition draft_after :: "'n platform \<Rightarrow> string list \<Rightarrow> string" where
  "draft_after P messages = foldl (\<lambda>prev message. onMessage P message prev) [] messages"

section \<open>Regular expressions\<close>

text \<open>
  The patterns of \<^verbatim>\<open>parseReport\<close> use character classes, sequence, alternation, greedy and
  lazy repetition, capture groups, lookahead and the end anchor. \<open>rmatch\<close> is a backtracking
  matcher in continuation-passing style that tries the alternatives in the order
  ECMAScript prescribes: a greedy repetition tries one more round before it lets the rest
  of the pattern go on, a lazy one the other way round, and a round that consumes nothing is
  not taken. A capture is recorded in front of the earlier ones, so the latest capture of a
  group is the one found.
\<close>

datatype re =
    Cls "char \<Rightarrow> bool"
  | Eps
  | Seq re re
  | Alt re re
  | Star re
  | LazyStar re
  | Group nat re
  | Look re
  | NegLook re
  | EndAnchor

type_synonym caps = "(nat \<times> string) list"

fun rmatch ::
  "re \<Rightarrow> string \<Rightarrow> caps \<Rightarrow> (string \<Rightarrow> caps \<Rightarrow> (string \<times> caps) option) \<Rightarrow>
     (string \<times> caps) option" where
  "rmatch (Cls p) s c k = (case s of [] \<Rightarrow> None | x # xs \<Rightarrow> if p x then k xs c else None)"
| "rmatch Eps s c k = k s c"
| "rmatch (Seq a b) s c k = rmatch a s c (\<lambda>s' c'. rmatch b s' c' k)"
| "rmatch (Alt a b) s c k =
     (case rmatch a s c k of Some r \<Rightarrow> Some r | None \<Rightarrow> rmatch b s c k)"
| "rmatch (Star a) s c k =
     (case rmatch a s c
             (\<lambda>s' c'. if length s' < length s then rmatch (Star a) s' c' k else None) of
        Some r \<Rightarrow> Some r
      | None \<Rightarrow> k s c)"
| "rmatch (LazyStar a) s c k =
     (case k s c of
        Some r \<Rightarrow> Some r
      | None \<Rightarrow>
          rmatch a s c
            (\<lambda>s' c'. if length s' < length s then rmatch (LazyStar a) s' c' k else None))"
| "rmatch (Group n a) s c k =
     rmatch a s c (\<lambda>s' c'. k s' ((n, take (length s - length s') s) # c'))"
| "rmatch (Look a) s c k =
     (case rmatch a s c (\<lambda>s' c'. Some (s', c')) of
        None \<Rightarrow> None
      | Some (s', c') \<Rightarrow> k s c')"
| "rmatch (NegLook a) s c k =
     (case rmatch a s c (\<lambda>s' c'. Some (s', c')) of None \<Rightarrow> k s c | Some r \<Rightarrow> None)"
| "rmatch EndAnchor s c k = (if s = [] then k s c else None)"

text \<open>
  \<^verbatim>\<open>s.match(re)\<close> without the \<^verbatim>\<open>g\<close> flag: the match at the first position that has one, as
  the matched text, the captures and the text after the match; \<open>None\<close> is \<^verbatim>\<open>null\<close>.
\<close>

fun re_search :: "re \<Rightarrow> string \<Rightarrow> (string \<times> caps \<times> string) option" where
  "re_search r [] =
     (case rmatch r [] [] (\<lambda>s' c'. Some (s', c')) of
        Some (s', c') \<Rightarrow> Some ([], c', s')
      | None \<Rightarrow> None)"
| "re_search r (x # xs) =
     (case rmatch r (x # xs) [] (\<lambda>s' c'. Some (s', c')) of
        Some (s', c') \<Rightarrow> Some (take (length (x # xs) - length s') (x # xs), c', s')
      | None \<Rightarrow> re_search r xs)"

text \<open>
  \<^verbatim>\<open>s.matchAll(re)\<close> with the \<^verbatim>\<open>g\<close> flag: the captures of the successive matches, each search
  starting where the previous match ended (one character further after an empty match).
  The scan goes through the positions of the text from left to right; \<open>skip\<close> counts the
  characters that still belong to the match found last.
\<close>

fun re_matchAll :: "re \<Rightarrow> nat \<Rightarrow> string \<Rightarrow> caps list" where
  "re_matchAll r skip [] =
     (if 0 < skip then []
      else (case rmatch r [] [] (\<lambda>s' c'. Some (s', c')) of
              Some (s', c') \<Rightarrow> [c']
            | None \<Rightarrow> []))"
| "re_matchAll r skip (x # xs) =
     (if 0 < skip then re_matchAll r (skip - 1) xs
      else (case rmatch r (x # xs) [] (\<lambda>s' c'. Some (s', c')) of
              Some (s', c') \<Rightarrow> c' # re_matchAll r (length xs - length s') xs
            | None \<Rightarrow> re_matchAll r 0 xs))"

definition matchAll :: "re \<Rightarrow> string \<Rightarrow> caps list" where
  "matchAll r s = re_matchAll r 0 s"

text \<open>The text of group \<open>n\<close>; a group that took no part in the match reads as empty here.\<close>

definition grp :: "caps \<Rightarrow> nat \<Rightarrow> string" where
  "grp c n = (case map_of c n of None \<Rightarrow> [] | Some g \<Rightarrow> g)"

definition to_lower :: "char \<Rightarrow> char" where
  "to_lower c =
     (case map_of (zip ''ABCDEFGHIJKLMNOPQRSTUVWXYZ'' ''abcdefghijklmnopqrstuvwxyz'') c of
        Some l \<Rightarrow> l
      | None \<Rightarrow> c)"

text \<open>
  Pattern building blocks: a character, a character under the \<^verbatim>\<open>i\<close> flag, a sequence, a
  literal text with and without the \<^verbatim>\<open>i\<close> flag, \<^verbatim>\<open>r?\<close>, \<^verbatim>\<open>r+\<close>, \<^verbatim>\<open>[\s\S]\<close>, \<^verbatim>\<open>\s\<close>, \<^verbatim>\<open>\d\<close> and
  the classes \<^verbatim>\<open>[^...]\<close> and \<^verbatim>\<open>[...]\<close>.
\<close>

definition chr :: "char \<Rightarrow> re" where
  "chr x = Cls (\<lambda>c. c = x)"

definition chri :: "char \<Rightarrow> re" where
  "chri x = Cls (\<lambda>c. to_lower c = to_lower x)"

definition seqs :: "re list \<Rightarrow> re" where
  "seqs rs = foldr Seq rs Eps"

definition lit :: "string \<Rightarrow> re" where
  "lit s = seqs (map chr s)"

definition liti :: "string \<Rightarrow> re" where
  "liti s = seqs (map chri s)"

definition opt :: "re \<Rightarrow> re" where
  "opt r = Alt r Eps"

definition many1 :: "re \<Rightarrow> re" where
  "many1 r = Seq r (Star r)"

definition any_char :: re where
  "any_char = Cls (\<lambda>c. True)"

definition space :: re where
  "space = Cls is_space"

definition digit :: re where
  "digit = Cls is_digit"

definition none_of :: "string \<Rightarrow> re" where
  "none_of cs = Cls (\<lambda>c. c \<notin> set cs)"

definition one_of :: "string \<Rightarrow> re" where
  "one_of cs = Cls (\<lambda>c. c \<in> set cs)"

section \<open>Report normalizer (ScoreCard component, parseReport)\<close>

text \<open>
  The regular expressions of \<^verbatim>\<open>parseReport\<close>, in the order of the source. The classes
  \<^verbatim>\<open>[-\<close>en-dash\<^verbatim>\<open>]\<close> and \<^verbatim>\<open>[^\<close>en-dash\<^verbatim>\<open>\-\n]\<close> name the en dash U+2013, a code unit that an 8-bit
  string cannot hold, so within the model they are \<^verbatim>\<open>[-]\<close> and \<^verbatim>\<open>[^\-\n]\<close>.
\<close>

definition RE_jsonMatch :: re where
  \<comment> \<open>\<^verbatim>\<open>/```json\n([\s\S]*?)\n```/\<close>\<close>
  "RE_jsonMatch = seqs [lit ''```json\<newline>'', Group 1 (LazyStar any_char), lit ''\<newline>```'']"

definition RE_overallMatch :: re where
  \<comment> \<open>\<^verbatim>\<open>/Overall Grade:\s*\*?\*?(\d+(?:\.\d+)?)\%/i\<close>\<close>
  "RE_overallMatch =
     seqs [liti ''Overall Grade:'', Star space, opt (chr CHR ''*''), opt (chr CHR ''*''),
           Group 1 (Seq (many1 digit) (opt (Seq (chr CHR ''.'') (many1 digit)))),
           chr CHR ''%'']"

definition RE_qualityMatch :: re where
  \<comment> \<open>\<^verbatim>\<open>/Quality Score:\s*\*?\*?(\d+)\/100/i\<close>\<close>
  "RE_qualityMatch =
     seqs [liti ''Quality Score:'', Star space, opt (chr CHR ''*''), opt (chr CHR ''*''),
           Group 1 (many1 digit), lit ''/100'']"

definition RE_financialMatch :: re where
  \<comment> \<open>\<^verbatim>\<open>/Financial Score:\s*\*?\*?(\d+)\/100/i\<close>\<close>
  "RE_financialMatch =
     seqs [liti ''Financial Score:'', Star space, opt (chr CHR ''*''), opt (chr CHR ''*''),
           Group 1 (many1 digit), lit ''/100'']"

definition RE_marketValueMatch :: re where
  \<comment> \<open>\<^verbatim>\<open>/City Market Value:\s*\*?\*?\$?([\d,]+)/i\<close>\<close>
  "RE_marketValueMatch =
     seqs [liti ''City Market Value:'', Star space, opt (chr CHR ''*''), opt (chr CHR ''*''),
           opt (chr CHR ''$''), Group 1 (many1 (one_of ''0123456789,''))]"

definition RE_taxMatch :: re where
  \<comment> \<open>\<^verbatim>\<open>/(?:Est\.|Estimated) Annual Tax:\s*\*?\*?\$?([\d,]+)/i\<close>\<close>
  "RE_taxMatch =
     seqs [Alt (liti ''Est.'') (liti ''Estimated''), liti '' Annual Tax:'', Star space,
           opt (chr CHR ''*''), opt (chr CHR ''*''), opt (chr CHR ''$''),
           Group 1 (many1 (one_of ''0123456789,''))]"

definition RE_sectionEnd :: re where
  \<comment> \<open>\<^verbatim>\<open>(?=###|\*\*Final|$)\<close> under the \<^verbatim>\<open>i\<close> flag\<close>
  "RE_sectionEnd = Look (Alt (lit ''###'') (Alt (liti ''**Final'') EndAnchor))"

definition RE_qualitySection :: re where
  \<comment> \<open>\<^verbatim>\<open>/### 1\. Building Quality Audit[\s\S]*?(?=###|\*\*Final|$)/i\<close>\<close>
  "RE_qualitySection =
     seqs [liti ''### 1. Building Quality Audit'', LazyStar any_char, RE_sectionEnd]"

definition RE_issueMatches :: re where
  \<comment> \<open>\<^verbatim>\<open>/[-\<close>en-dash\<^verbatim>\<open>]\s*([^\n(]+)(?:\s*\(([^)]+)\))?/g\<close>\<close>
  "RE_issueMatches =
     seqs [one_of ''-'', Star space, Group 1 (many1 (none_of ''\<newline>('')),
           opt (seqs [Star space, chr CHR ''('', Group 2 (many1 (none_of '')'')), chr CHR '')''])]"

definition RE_scoutMatch :: re where
  \<comment> \<open>\<^verbatim>\<open>/Scout's Note:\*?\*?\s*([^\n]+(?:\n(?![-\<close>en-dash\<^verbatim>\<open>\*#])[^\n]+)*)/i\<close>\<close>
  "RE_scoutMatch =
     seqs [liti ''Scout'', chr (CHR 0x27), liti ''s Note:'', opt (chr CHR ''*''),
           opt (chr CHR ''*''), Star space,
           Group 1 (Seq (many1 (none_of ''\<newline>''))
                        (Star (seqs [chr CHR ''\<newline>'', NegLook (one_of ''-*#''),
                                     many1 (none_of ''\<newline>'')])))]"

definition RE_financialSection :: re where
  \<comment> \<open>\<^verbatim>\<open>/### 2\. Financial & Tax Audit[\s\S]*?(?=###|\*\*Final|$)/i\<close>\<close>
  "RE_financialSection =
     seqs [liti ''### 2. Financial & Tax Audit'', LazyStar any_char, RE_sectionEnd]"

definition RE_riskMatches :: re where
  \<comment> \<open>\<^verbatim>\<open>/[-\<close>en-dash\<^verbatim>\<open>]\s*([^\n]+)/g\<close>\<close>
  "RE_riskMatches = seqs [one_of ''-'', Star space, Group 1 (many1 (none_of ''\<newline>''))]"

definition RE_recommendationMatch :: re where
  \<comment> \<open>\<^verbatim>\<open>/\*\*Final Recommendation:\*\*\s*\*?\*?([^\<close>en-dash\<^verbatim>\<open>\-\n]+)(?:[\<close>en-dash\<^verbatim>\<open>\-]\s*([^\n]+))?/i\<close>\<close>
  "RE_recommendationMatch =
     seqs [liti ''**Final Recommendation:**'', Star space, opt (chr CHR ''*''),
           opt (chr CHR ''*''), Group 1 (many1 (none_of ''-\<newline>'')),
           opt (seqs [one_of ''-'', Star space, Group 2 (many1 (none_of ''\<newline>''))])]"

text \<open>
  The fallback of \<^verbatim>\<open>parseReport\<close> for text that is not JSON: a report object filled from the
  labels the patterns find, with the whole response kept as \<^verbatim>\<open>full_text\<close>. The members of
  each object are listed in the order in which the source creates them.
\<close>

definition issue_of :: "caps \<Rightarrow> 'n jsval" where
  "issue_of c = JObj [(''type'', JStr (trim (grp c 1))), (''details'', JStr (grp c 2))]"

text \<open>
  The risk factors: the trimmed bullet texts that are not empty and do not start with a
  digit (\<^verbatim>\<open>risk && !risk.match(/^\d+/)\<close>).
\<close>

definition risks_of :: "string \<Rightarrow> string list" where
  "risks_of section =
     filter (\<lambda>risk. case risk of [] \<Rightarrow> False | x # xs \<Rightarrow> \<not> is_digit x)
       (map (\<lambda>c. trim (grp c 1)) (matchAll RE_riskMatches section))"

definition markdown_report :: "'n platform \<Rightarrow> string \<Rightarrow> 'n jsval" where
  "markdown_report P response =
     (let overallMatch = re_search RE_overallMatch response;
          qualityMatch = re_search RE_qualityMatch response;
          financialMatch = re_search RE_financialMatch response;
          marketValueMatch = re_search RE_marketValueMatch response;
          taxMatch = re_search RE_taxMatch response;
          qualitySection = re_search RE_qualitySection response;
          financialSection = re_search RE_financialSection response;
          recommendationMatch = re_search RE_recommendationMatch response;
          score_of = (\<lambda>k m. case m of
                         None \<Rightarrow> []
                       | Some (whole, c, rest) \<Rightarrow> [(k, JNum (parseInt P (grp c 1)))]);
          amount_of = (\<lambda>k m. case m of
                         None \<Rightarrow> []
                       | Some (whole, c, rest) \<Rightarrow>
                           [(k, JNum (parseInt P (filter (\<lambda>x. x \<noteq> CHR 0x2C) (grp c 1))))])
      in JObj
           [(''property'', JObj []),
            (''scores'',
               JObj ((case overallMatch of
                        None \<Rightarrow> []
                      | Some (whole, c, rest) \<Rightarrow> [(''overall'', JNum (parseFloat P (grp c 1)))]) @
                     score_of ''quality'' qualityMatch @
                     score_of ''financial'' financialMatch)),
            (''quality_audit'',
               JObj ([(''recent_issues'',
                        JArr (case qualitySection of
                                None \<Rightarrow> []
                              | Some (whole, c, rest) \<Rightarrow> map issue_of (matchAll RE_issueMatches whole)))] @
                     score_of ''score'' qualityMatch @
                     (case qualitySection of
                        None \<Rightarrow> []
                      | Some (whole, c, rest) \<Rightarrow>
                          (case re_search RE_scoutMatch whole of
                             None \<Rightarrow> []
                           | Some (w, c', r) \<Rightarrow> [(''scouts_note'', JStr (trim (grp c' 1)))])))),
            (''financial_audit'',
               JObj ([(''risk_factors'',
                        JArr (case financialSection of
                                None \<Rightarrow> []
                              | Some (whole, c, rest) \<Rightarrow> map JStr (risks_of whole)))] @
                     score_of ''score'' financialMatch @
                     amount_of ''city_market_value'' marketValueMatch @
                     amount_of ''annual_tax'' taxMatch)),
            (''recommendation'',
               JObj (case recommendationMatch of
                       None \<Rightarrow> []
                     | Some (whole, c, rest) \<Rightarrow>
                         [(''level'', JStr (trim (grp c 1))),
                          (''reason'', JStr (trim (grp c 2)))])),
            (''full_text'', JStr response)])"

text \<open>
  The normalization of a parsed report whose \<^verbatim>\<open>scores\<close> field is truthy: the three scores
  under their component names, each from the first alias that is neither \<^verbatim>\<open>null\<close> nor
  \<^verbatim>\<open>undefined\<close>, in an object that otherwise copies the parsed one.
\<close>

definition norm_overall :: "'n jsval \<Rightarrow> 'n jsval" where
  "norm_overall scores =
     coalesce (optprop scores ''overall_transparency_grade'')
       (coalesce (optprop scores ''overall_grade'') (optprop scores ''overall''))"

definition norm_quality :: "'n jsval \<Rightarrow> 'n jsval" where
  "norm_quality scores =
     coalesce (optprop scores ''quality_score'') (optprop scores ''quality'')"

definition norm_financial :: "'n jsval \<Rightarrow> 'n jsval \<Rightarrow> 'n jsval" where
  "norm_financial parsed scores =
     coalesce (optprop scores ''financial_score'')
       (coalesce (optprop scores ''financial'')
          (coalesce (optprop (optprop parsed ''financial_audit'') ''score'')
             (optprop (optprop parsed ''financial_audit'') ''financial_score'')))"

definition normalized :: "'n jsval \<Rightarrow> 'n jsval \<Rightarrow> 'n jsval" where
  "normalized parsed scores =
     JObj (obj_put (spread parsed) ''scores''
             (JObj [(''overall'', norm_overall scores),
                    (''quality'', norm_quality scores),
                    (''financial'', norm_financial parsed scores)]))"

text \<open>The test \<^verbatim>\<open>if (parsed.scores)\<close> together with the test for an actual score value.\<close>

definition has_score :: "'n platform \<Rightarrow> 'n jsval \<Rightarrow> 'n jsval \<Rightarrow> bool" where
  "has_score P parsed scores =
     (truthy P scores \<and>
      (norm_overall scores \<noteq> JUndefined \<or> norm_quality scores \<noteq> JUndefined \<or>
       norm_financial parsed scores \<noteq> JUndefined))"

text \<open>
  The inner \<^verbatim>\<open>try\<close> block, run on a response without a fenced block. \<open>Returned\<close> is a
  \<^verbatim>\<open>return\<close>; \<open>FallThrough\<close> is an exception caught by the inner \<^verbatim>\<open>catch\<close> (the SyntaxError
  of \<^verbatim>\<open>JSON.parse\<close>, the TypeError of \<^verbatim>\<open>parsed.scores\<close> on \<^verbatim>\<open>null\<close>), after which the source
  goes on to the markdown patterns.
\<close>

datatype 'n attempt = Returned "'n jsval" | FallThrough

definition parse_whole :: "'n platform \<Rightarrow> string \<Rightarrow> 'n attempt" where
  "parse_whole P response =
     (case JSON_parse P response of
        None \<Rightarrow> FallThrough
      | Some parsed \<Rightarrow>
          (case getprop parsed ''scores'' of
             None \<Rightarrow> FallThrough
           | Some scores \<Rightarrow>
               if has_score P parsed scores then Returned (normalized parsed scores)
               else if truthy P (optprop parsed ''property'') \<and> \<not> truthy P scores
               then Returned JNull
               else Returned (JObj (obj_put (spread parsed) ''full_text'' (JStr response)))))"

text \<open>
  \<^verbatim>\<open>parseReport\<close>. An empty response gives \<^verbatim>\<open>null\<close>. A fenced block is parsed and the parsed
  value returned as it is; when that parse throws, the outer \<^verbatim>\<open>catch\<close> returns an object
  with only \<^verbatim>\<open>full_text\<close>. Without a fenced block the whole response is tried as JSON, and
  then as markdown.
\<close>

definition parseReport :: "'n platform \<Rightarrow> string \<Rightarrow> 'n jsval" where
  "parseReport P response =
     (if response = [] then JNull
      else
        (case re_search RE_jsonMatch response of
           Some (whole, c, rest) \<Rightarrow>
             (case JSON_parse P (grp c 1) of
                Some v \<Rightarrow> v
              | None \<Rightarrow> JObj [(''full_text'', JStr response)])
         | None \<Rightarrow>
             (case parse_whole P response of
                Returned v \<Rightarrow> v
              | FallThrough \<Rightarrow> markdown_report P response)))"

section \<open>Stream lifetime (services/api.js and PropertyDetail.jsx)\<close>

text \<open>
  \<^verbatim>\<open>streamWatsonAnalysis\<close> creates an \<^verbatim>\<open>AbortController\<close>, starts \<^verbatim>\<open>streamRequest\<close> with its
  signal and returns a cleanup function that aborts the controller. The state of a property
  view, as far as streams are concerned, is the list of the controllers it has created, each
  with the flag whether it has been aborted; a read loop whose controller is not aborted
  keeps reading until its body ends. The cleanup function of a stream is modelled by the
  index of its controller, and calling it by \<open>abort\<close>.
\<close>

type_synonym view = "bool list"

definition abort :: "nat \<Rightarrow> view \<Rightarrow> view" where
  "abort h v = (if h < length v then v[h := True] else v)"

definition streamWatsonAnalysis :: "view \<Rightarrow> view \<times> nat" where
  "streamWatsonAnalysis v = (v @ [False], length v)"

text \<open>
  \<^verbatim>\<open>triggerWatsonAnalysis\<close> resets the draft, starts a stream and returns its cleanup function.
  \<^verbatim>\<open>fetchProperty\<close> calls it once the property is loaded and has an address, and drops what
  it returns.
\<close>

definition triggerWatsonAnalysis :: "view \<Rightarrow> view \<times> nat" where
  "triggerWatsonAnalysis v = streamWatsonAnalysis v"

definition fetchProperty :: "bool \<Rightarrow> view \<Rightarrow> view" where
  "fetchProperty has_address v = (if has_address then fst (triggerWatsonAnalysis v) else v)"

text \<open>
  The component's only effect that touches streams is
  \<^verbatim>\<open>useEffect(() => { fetchProperty(); }, [id])\<close>. It runs when the view is mounted and
  whenever the route's \<^verbatim>\<open>id\<close> changes, and its callback returns nothing, so React has no
  cleanup to run before the next run of the effect or when the view is unmounted. \<open>Shown a\<close> is a run of the effect for a property that loads, \<open>a\<close>
  telling whether it has an address; \<open>Unmounted\<close> is navigating away.
\<close>

datatype lifecycle = Shown bool | Unmounted

fun view_step :: "view \<Rightarrow> lifecycle \<Rightarrow> view" where
  "view_step v (Shown a) = fetchProperty a v"
| "view_step v Unmounted = v"

definition view_after :: "lifecycle list \<Rightarrow> view" where
  "view_after evs = foldl view_step [] evs"

text \<open>The read loops that nothing has aborted.\<close>

definition unaborted :: "view \<Rightarrow> nat" where
  "unaborted v = length (filter (\<lambda>aborted. \<not> aborted) v)"

section \<open>A concrete platform for evaluation\<close>

text \<open>
  The theorems about the program leave the platform record free. To run the model on
  concrete inputs, this section implements the platform functions over exact decimal
  numbers: a JSON parser for the grammar of RFC 8259, the two-space pretty printer and the
  number printer. It differs from a browser where doubles matter (numbers are not rounded
  to binary64, and are printed in positional notation only), where a string needs a code
  unit above \<^verbatim>\<open>0xFF\<close> (a \<^verbatim>\<open>\u\<close> escape of such a unit is rejected) and in the order of
  integer-like object keys; the closed evaluations below use none of these.
\<close>

datatype jsnum = Num rat | NaN

definition json_ws :: "char \<Rightarrow> bool" where
  "json_ws c = (c \<in> set [CHR 0x20, CHR 0x09, CHR 0x0A, CHR 0x0D])"

definition skip_ws :: "string \<Rightarrow> string" where
  "skip_ws s = dropWhile json_ws s"

definition digit_val :: "char \<Rightarrow> nat" where
  "digit_val c = of_char c - 48"

definition digits_val :: "string \<Rightarrow> nat" where
  "digits_val ds = foldl (\<lambda>a d. 10 * a + digit_val d) 0 ds"

definition hex_val :: "char \<Rightarrow> nat option" where
  "hex_val c =
     (if is_digit c then Some (digit_val c)
      else if c \<in> set ''abcdef'' then Some (of_char c - 87)
      else if c \<in> set ''ABCDEF'' then Some (of_char c - 55)
      else None)"

definition unescape :: "char \<Rightarrow> char option" where
  "unescape e =
     (if e = dq \<or> e = bsl \<or> e = CHR ''/'' then Some e
      else if e = CHR ''b'' then Some (CHR 0x08)
      else if e = CHR ''f'' then Some (CHR 0x0C)
      else if e = CHR ''n'' then Some (CHR 0x0A)
      else if e = CHR ''r'' then Some (CHR 0x0D)
      else if e = CHR ''t'' then Some (CHR 0x09)
      else None)"

text \<open>The characters of a string literal after its opening quote, and the rest.\<close>

fun parse_string :: "string \<Rightarrow> (string \<times> string) option" where
  "parse_string [] = None"
| "parse_string (c # cs) =
     (if c = dq then Some ([], cs)
      else if c = bsl then
        (case cs of
           [] \<Rightarrow> None
         | e # cs' \<Rightarrow>
             if e = CHR ''u'' then
               (case cs' of
                  h1 # h2 # h3 # h4 # cs'' \<Rightarrow>
                    (case (hex_val h1, hex_val h2, hex_val h3, hex_val h4) of
                       (Some a, Some b, Some x, Some y) \<Rightarrow>
                         if a = 0 \<and> b = 0
                         then map_option (apfst ((#) (char_of (16 * x + y)))) (parse_string cs'')
                         else None
                     | _ \<Rightarrow> None)
                | _ \<Rightarrow> None)
             else
               (case unescape e of
                  None \<Rightarrow> None
                | Some ch \<Rightarrow> map_option (apfst ((#) ch)) (parse_string cs')))
      else if (of_char c :: nat) < 32 then None
      else map_option (apfst ((#) c)) (parse_string cs))"

text \<open>
  A number literal: an optional minus, \<^verbatim>\<open>0\<close> or digits without a leading zero, an optional
  fraction, an optional exponent.
\<close>

definition parse_number :: "string \<Rightarrow> (rat \<times> string) option" where
  "parse_number s =
     (let neg = (case s of [] \<Rightarrow> False | c # cs \<Rightarrow> c = CHR ''-'');
          s1 = (if neg then tl s else s);
          ds = (case s1 of [] \<Rightarrow> [] | c # cs \<Rightarrow> if c = CHR ''0'' then [c] else takeWhile is_digit s1);
          s2 = drop (length ds) s1;
          has_frac = (case s2 of [] \<Rightarrow> False | c # cs \<Rightarrow> c = CHR ''.'');
          fs = (if has_frac then takeWhile is_digit (tl s2) else []);
          s3 = (if has_frac then drop (length fs) (tl s2) else s2);
          has_exp = (case s3 of [] \<Rightarrow> False | c # cs \<Rightarrow> c = CHR ''e'' \<or> c = CHR ''E'');
          s4 = (if has_exp then tl s3 else s3);
          eneg = (has_exp \<and> (case s4 of [] \<Rightarrow> False | c # cs \<Rightarrow> c = CHR ''-''));
          esgn = (has_exp \<and> (case s4 of [] \<Rightarrow> False | c # cs \<Rightarrow> c = CHR ''-'' \<or> c = CHR ''+''));
          s5 = (if esgn then tl s4 else s4);
          es = (if has_exp then takeWhile is_digit s5 else []);
          rest = drop (length es) s5;
          m = of_nat (digits_val (ds @ fs)) / 10 ^ length fs;
          v = (if eneg then m / 10 ^ digits_val es else m * 10 ^ digits_val es)
      in if ds = [] \<or> (has_frac \<and> fs = []) \<or> (has_exp \<and> es = []) then None
         else Some (if neg then - v else v, rest))"

text \<open>
  Recursive descent with fuel: the first argument is a list that only bounds the depth of
  the recursion. Every call takes one item of it, and of two nested calls at least one
  reads a character, so \<open>JSON_parse_impl\<close> passes a list of twice the length of the text
  and one more.
\<close>

fun parse_value :: "'f list \<Rightarrow> string \<Rightarrow> (jsnum jsval \<times> string) option"
and parse_elements ::
  "'f list \<Rightarrow> jsnum jsval list \<Rightarrow> string \<Rightarrow> (jsnum jsval list \<times> string) option"
and parse_members ::
  "'f list \<Rightarrow> (string \<times> jsnum jsval) list \<Rightarrow> string \<Rightarrow>
     ((string \<times> jsnum jsval) list \<times> string) option"
where
  "parse_value [] s = None"
| "parse_value (f # fuel) s =
     (case skip_ws s of
        [] \<Rightarrow> None
      | c # cs \<Rightarrow>
          if c = CHR ''{'' then
            (case skip_ws cs of
               [] \<Rightarrow> None
             | d # ds \<Rightarrow>
                 if d = CHR ''}'' then Some (JObj [], ds)
                 else map_option (apfst JObj) (parse_members fuel [] (d # ds)))
          else if c = CHR ''['' then
            (case skip_ws cs of
               [] \<Rightarrow> None
             | d # ds \<Rightarrow>
                 if d = CHR '']'' then Some (JArr [], ds)
                 else map_option (apfst JArr) (parse_elements fuel [] (d # ds)))
          else if c = dq then map_option (apfst JStr) (parse_string cs)
          else if startsWith (c # cs) ''true'' then Some (JBool True, drop 4 (c # cs))
          else if startsWith (c # cs) ''false'' then Some (JBool False, drop 5 (c # cs))
          else if startsWith (c # cs) ''null'' then Some (JNull, drop 4 (c # cs))
          else map_option (apfst (\<lambda>r. JNum (Num r))) (parse_number (c # cs)))"
| "parse_elements [] acc s = None"
| "parse_elements (f # fuel) acc s =
     (case parse_value fuel s of
        None \<Rightarrow> None
      | Some (v, rest) \<Rightarrow>
          (case skip_ws rest of
             [] \<Rightarrow> None
           | c # cs \<Rightarrow>
               if c = CHR 0x2C then parse_elements fuel (acc @ [v]) cs
               else if c = CHR '']'' then Some (acc @ [v], cs)
               else None))"
| "parse_members [] acc s = None"
| "parse_members (f # fuel) acc s =
     (case skip_ws s of
        [] \<Rightarrow> None
      | c # cs \<Rightarrow>
          if c \<noteq> dq then None
          else
            (case parse_string cs of
               None \<Rightarrow> None
             | Some (k, r1) \<Rightarrow>
                 (case skip_ws r1 of
                    [] \<Rightarrow> None
                  | c1 # r2 \<Rightarrow>
                      if c1 \<noteq> CHR '':'' then None
                      else
                        (case parse_value fuel r2 of
                           None \<Rightarrow> None
                         | Some (v, r3) \<Rightarrow>
                             (case skip_ws r3 of
                                [] \<Rightarrow> None
                              | c2 # r4 \<Rightarrow>
                                  if c2 = CHR 0x2C then parse_members fuel (obj_put acc k v) r4
                                  else if c2 = CHR ''}'' then Some (obj_put acc k v, r4)
                                  else None)))))"

definition JSON_parse_impl :: "string \<Rightarrow> jsnum jsval option" where
  "JSON_parse_impl s =
     (case parse_value (s @ s @ ''.'') s of
        None \<Rightarrow> None
      | Some (v, rest) \<Rightarrow> if skip_ws rest = [] then Some v else None)"

text \<open>Printing a number: decimal digits, at most twenty of them after the point.\<close>

fun frac_digits :: "nat \<Rightarrow> rat \<Rightarrow> string" where
  "frac_digits 0 r = []"
| "frac_digits (Suc n) r =
     (if r = 0 then []
      else (''0123456789'' ! nat \<lfloor>10 * r\<rfloor>) # frac_digits n (10 * r - of_int \<lfloor>10 * r\<rfloor>))"

definition show_rat :: "rat \<Rightarrow> string" where
  "show_rat r =
     (let a = \<bar>r\<bar>; f = a - of_int \<lfloor>a\<rfloor>
      in (if r < 0 then ''-'' else []) @ show_nat (nat \<lfloor>a\<rfloor>) @
         (if f = 0 then [] else ''.'' @ frac_digits 20 f))"

fun show_num :: "jsnum \<Rightarrow> string" where
  "show_num NaN = ''NaN''"
| "show_num (Num r) = show_rat r"

definition hex_digit :: "nat \<Rightarrow> char" where
  "hex_digit n = ''0123456789abcdef'' ! n"

definition escape_char :: "char \<Rightarrow> string" where
  "escape_char c =
     (if c = dq then [bsl, dq]
      else if c = bsl then [bsl, bsl]
      else if c = CHR 0x08 then [bsl, CHR ''b'']
      else if c = CHR 0x0C then [bsl, CHR ''f'']
      else if c = CHR 0x0A then [bsl, CHR ''n'']
      else if c = CHR 0x0D then [bsl, CHR ''r'']
      else if c = CHR 0x09 then [bsl, CHR ''t'']
      else if (of_char c :: nat) < 32
      then [bsl, CHR ''u'', CHR ''0'', CHR ''0'',
            hex_digit (of_char c div 16), hex_digit (of_char c mod 16)]
      else [c])"

definition quote :: "string \<Rightarrow> string" where
  "quote s = dq # concat (map escape_char s) @ [dq]"

text \<open>
  \<^verbatim>\<open>JSON.stringify(v, null, 2)\<close> at a given indentation. A member whose value is
  \<^verbatim>\<open>undefined\<close> is left out, an \<^verbatim>\<open>undefined\<close> element and NaN print as \<^verbatim>\<open>null\<close>; at top level
  \<^verbatim>\<open>undefined\<close> has no serialization, and the program never serializes it.
\<close>

fun stringify_at :: "string \<Rightarrow> jsnum jsval \<Rightarrow> string" where
  "stringify_at ind JUndefined = ''null''"
| "stringify_at ind JNull = ''null''"
| "stringify_at ind (JBool b) = (if b then ''true'' else ''false'')"
| "stringify_at ind (JNum n) = (if n = NaN then ''null'' else show_num n)"
| "stringify_at ind (JStr s) = quote s"
| "stringify_at ind (JArr xs) =
     (if xs = [] then ''[]''
      else ''['' @ [nl] @
           join ('','' @ [nl]) (map (\<lambda>x. ind @ ''  '' @ stringify_at (ind @ ''  '') x) xs) @
           [nl] @ ind @ '']'')"
| "stringify_at ind (JObj kvs) =
     (if filter (\<lambda>kv. snd kv \<noteq> JUndefined) kvs = [] then ''{}''
      else ''{'' @ [nl] @
           join ('','' @ [nl])
             (map (\<lambda>kv. ind @ ''  '' @ quote (fst kv) @ '': '' @
                        stringify_at (ind @ ''  '') (snd kv))
                (filter (\<lambda>kv. snd kv \<noteq> JUndefined) kvs)) @
           [nl] @ ind @ ''}'')"

text \<open>
  \<^verbatim>\<open>parseFloat\<close>: the longest prefix, after leading white space, that is a decimal literal
  (the literal \<^verbatim>\<open>Infinity\<close> left aside); NaN when there is none. \<^verbatim>\<open>parseInt\<close> without a
  radix: an optional sign, then hexadecimal digits after \<^verbatim>\<open>0x\<close> and decimal digits
  otherwise; NaN when there is no digit.
\<close>

definition parseFloat_impl :: "string \<Rightarrow> jsnum" where
  "parseFloat_impl s =
     (let s0 = dropWhile is_space s;
          neg = (case s0 of [] \<Rightarrow> False | c # cs \<Rightarrow> c = CHR ''-'');
          sgn = (case s0 of [] \<Rightarrow> False | c # cs \<Rightarrow> c = CHR ''-'' \<or> c = CHR ''+'');
          s1 = (if sgn then tl s0 else s0);
          ds = takeWhile is_digit s1;
          s2 = drop (length ds) s1;
          has_dot = (case s2 of [] \<Rightarrow> False | c # cs \<Rightarrow> c = CHR ''.'');
          fs = (if has_dot then takeWhile is_digit (tl s2) else []);
          s3 = (if has_dot then drop (length fs) (tl s2) else s2);
          has_e = (case s3 of [] \<Rightarrow> False | c # cs \<Rightarrow> c = CHR ''e'' \<or> c = CHR ''E'');
          s4 = (if has_e then tl s3 else s3);
          eneg = (has_e \<and> (case s4 of [] \<Rightarrow> False | c # cs \<Rightarrow> c = CHR ''-''));
          esgn = (has_e \<and> (case s4 of [] \<Rightarrow> False | c # cs \<Rightarrow> c = CHR ''-'' \<or> c = CHR ''+''));
          s5 = (if esgn then tl s4 else s4);
          es = (if has_e then takeWhile is_digit s5 else []);
          m = of_nat (digits_val (ds @ fs)) / 10 ^ length fs;
          v = (if eneg then m / 10 ^ digits_val es else m * 10 ^ digits_val es)
      in if ds = [] \<and> fs = [] then NaN else Num (if neg then - v else v))"

definition parseInt_impl :: "string \<Rightarrow> jsnum" where
  "parseInt_impl s =
     (let s0 = dropWhile is_space s;
          neg = (case s0 of [] \<Rightarrow> False | c # cs \<Rightarrow> c = CHR ''-'');
          sgn = (case s0 of [] \<Rightarrow> False | c # cs \<Rightarrow> c = CHR ''-'' \<or> c = CHR ''+'');
          s1 = (if sgn then tl s0 else s0);
          hex = (startsWith s1 ''0x'' \<or> startsWith s1 ''0X'');
          s2 = (if hex then drop 2 s1 else s1);
          ds = (if hex then takeWhile (\<lambda>c. hex_val c \<noteq> None) s2 else takeWhile is_digit s2);
          v = (if hex
               then foldl (\<lambda>a d. 16 * a + (case hex_val d of None \<Rightarrow> 0 | Some h \<Rightarrow> h)) 0 ds
               else digits_val ds)
      in if ds = [] then NaN else Num (if neg then - of_nat v else of_nat v))"

definition JS :: "jsnum platform" where
  "JS = \<lparr> JSON_parse = JSON_parse_impl,
          JSON_stringify2 = stringify_at [],
          Number_toString = show_num,
          Number_falsy = (\<lambda>n. n = NaN \<or> n = Num 0),
          parseFloat = parseFloat_impl,
          parseInt = parseInt_impl \<rparr>"

text \<open>
  A decoder for streams of 7-bit bytes, on which UTF-8 decoding is the identity and keeps
  no state.
\<close>

definition ascii_decode :: "(unit, char) text_decoder" where
  "ascii_decode d bs = (bs, d)"

section \<open>Report accumulator: duplicate suppression\<close>

lemma startsWith_iff: "startsWith s p \<longleftrightarrow> (\<exists>b. s = p @ b)"
proof
  assume "startsWith s p"
  then have "s = p @ drop (length p) s"
    unfolding startsWith_def by (metis append_take_drop_id)
  then show "\<exists>b. s = p @ b" ..
next
  assume "\<exists>b. s = p @ b"
  then show "startsWith s p"
    unfolding startsWith_def by auto
qed

lemma includes_iff: "includes_str p m \<longleftrightarrow> (\<exists>a b. p = a @ m @ b)"
proof (induction p)
  case Nil
  then show ?case by auto
next
  case (Cons c cs)
  show ?case
  proof
    assume "includes_str (c # cs) m"
    then consider "startsWith (c # cs) m" | "includes_str cs m" by auto
    then show "\<exists>a b. c # cs = a @ m @ b"
    proof cases
      case 1
      then obtain b where "c # cs = m @ b" using startsWith_iff by blast
      then have "c # cs = [] @ m @ b" by simp
      then show ?thesis by blast
    next
      case 2
      then obtain a b where "cs = a @ m @ b" using Cons.IH by blast
      then have "c # cs = (c # a) @ m @ b" by simp
      then show ?thesis by blast
    qed
  next
    assume "\<exists>a b. c # cs = a @ m @ b"
    then obtain a b where ab: "c # cs = a @ m @ b" by blast
    show "includes_str (c # cs) m"
    proof (cases a)
      case Nil
      with ab have "startsWith (c # cs) m" using startsWith_iff by fastforce
      then show ?thesis by simp
    next
      case (Cons x a')
      with ab have "cs = a' @ m @ b" by simp
      then have "includes_str cs m" using Cons.IH by blast
      then show ?thesis by simp
    qed
  qed
qed

text \<open>
  C6. The accumulator's append is idempotent under exact-substring duplicates: when the
  message \<open>M\<close> occurs as a substring of the accumulated draft \<open>P\<close> the draft stays \<open>P\<close>,
  and otherwise the new draft is \<open>P\<close> followed by \<open>M\<close>.
\<close>

theorem appendIncremental_substring:
  "((\<exists>a b. P = a @ M @ b) \<longrightarrow> appendIncremental P M = P) \<and>
   (\<not> (\<exists>a b. P = a @ M @ b) \<longrightarrow> appendIncremental P M = P @ M)"
  by (simp add: appendIncremental_def includes_iff)

theorem appendIncremental_substring_witness:
  "(\<exists>a b. ''The roof leaks.'' = a @ ''roof'' @ b) \<and>
   appendIncremental ''The roof leaks.'' ''roof'' = ''The roof leaks.'' \<and>
   \<not> (\<exists>a b. ''The roof'' = a @ '' leaks.'' @ b) \<and>
   appendIncremental ''The roof'' '' leaks.'' = ''The roof leaks.''"
proof -
  have yes: "\<exists>a b. ''The roof leaks.'' = a @ ''roof'' @ b"
    using includes_iff [of "''The roof leaks.''" "''roof''"] by (simp add: startsWith_def)
  have no: "\<not> (\<exists>a b. ''The roof'' = a @ '' leaks.'' @ b)"
    using includes_iff [of "''The roof''" "'' leaks.''"] by (simp add: startsWith_def)
  from yes no
    appendIncremental_substring [of "''The roof leaks.''" "''roof''"]
    appendIncremental_substring [of "''The roof''" "'' leaks.''"]
  show ?thesis by simp
qed

section \<open>Stream decoder: what a stream of chunks yields\<close>

text \<open>
  Splitting distributes over concatenation once the unfinished last piece is carried over,
  which is what the buffer does.
\<close>

lemma split_on_nonempty: "split_on c s \<noteq> []"
  by (induction s) (auto split: list.splits)

lemma split_on_append:
  "split_on c (a @ b) = butlast (split_on c a) @ split_on c (last (split_on c a) @ b)"
proof (induction a)
  case Nil
  show ?case by simp
next
  case (Cons x a)
  show ?case
  proof (cases "x = c")
    case True
    with Cons show ?thesis by (simp add: split_on_nonempty)
  next
    case False
    obtain l ls where s: "split_on c a = l # ls"
      using split_on_nonempty [of c a] by (cases "split_on c a") auto
    show ?thesis
    proof (cases ls)
      case Nil
      with s False Cons show ?thesis by simp
    next
      case (Cons m ms)
      with s False Cons.IH show ?thesis by simp
    qed
  qed
qed

lemma split_on_no_sep: "c \<notin> set s \<Longrightarrow> split_on c s = [s]"
  by (induction s) auto

lemma last_split_on_no_sep: "c \<notin> set (last (split_on c s))"
proof (induction s)
  case Nil
  show ?case by simp
next
  case (Cons x s)
  obtain l ls where s: "split_on c s = l # ls"
    using split_on_nonempty [of c s] by (cases "split_on c s") auto
  with Cons show ?case by (cases ls) auto
qed

lemma split_on_terminated:
  assumes "\<forall>l \<in> set ls. c \<notin> set l" and "c \<notin> set unfinished"
  shows "split_on c (concat (map (\<lambda>l. l @ [c]) ls) @ unfinished) = ls @ [unfinished]"
  using assms(1)
proof (induction ls)
  case Nil
  from assms(2) show ?case by (simp add: split_on_no_sep)
next
  case (Cons l ls)
  then have l: "c \<notin> set l"
    and IH: "split_on c (concat (map (\<lambda>l. l @ [c]) ls) @ unfinished) = ls @ [unfinished]"
    by auto
  have "split_on c (l @ c # r) = l # split_on c r" for r
    using l by (induction l) auto
  with IH show ?case by simp
qed

lemma read_loop_lines:
  assumes "streaming decode" and "nl \<notin> set buf"
  shows "read_loop P decode (d, buf) reads e =
           concat (map (process_line P)
             (butlast (split_on nl (buf @ fst (decode d (concat reads)))))) @ on_failure e"
  using assms(2)
proof (induction reads arbitrary: d buf)
  case Nil
  from assms(1) have "decode d [] = ([], d)" by (simp add: streaming_def)
  with Nil show ?case by (simp add: split_on_no_sep)
next
  case (Cons v vs)
  obtain tx d' where dv: "decode d v = (tx, d')" by (cases "decode d v")
  obtain y d'' where dvs: "decode d' (concat vs) = (y, d'')" by (cases "decode d' (concat vs)")
  from assms(1) have "decode d (v @ concat vs) =
      (case decode d v of (x, d') \<Rightarrow> (case decode d' (concat vs) of (y, d'') \<Rightarrow> (x @ y, d'')))"
    unfolding streaming_def by blast
  with dv dvs have whole: "fst (decode d (concat (v # vs))) = tx @ y" by simp
  let ?lines = "split_on nl (buf @ tx)"
  have step: "on_read P decode (d, buf) v =
      (concat (map (process_line P) (butlast ?lines)), (d', last ?lines))"
    by (simp add: on_read_def dv Let_def)
  have "nl \<notin> set (last ?lines)" by (rule last_split_on_no_sep)
  from Cons.IH [OF this, of d'] dvs
  have rest: "read_loop P decode (d', last ?lines) vs e =
      concat (map (process_line P) (butlast (split_on nl (last ?lines @ y)))) @ on_failure e"
    by simp
  have "split_on nl (buf @ tx @ y) = butlast ?lines @ split_on nl (last ?lines @ y)"
    using split_on_append [of nl "buf @ tx" y] by simp
  then have "butlast (split_on nl (buf @ tx @ y)) =
      butlast ?lines @ butlast (split_on nl (last ?lines @ y))"
    by (simp add: butlast_append split_on_nonempty)
  with step rest whole show ?case by simp
qed

lemma stream_events:
  assumes "streaming decode"
  shows "streamRequest P decode d0 (Ok reads e) =
           concat (map (process_line P)
             (butlast (split_on nl (fst (decode d0 (concat reads)))))) @ on_failure e"
  using read_loop_lines [OF assms, of "[]" P d0 reads e] by simp

lemma streaming_ascii_decode: "streaming ascii_decode"
  by (simp add: streaming_def ascii_decode_def)

text \<open>
  C1. Fragmentation invariance: for every stream of bytes and every way of cutting it into
  read chunks, at any offsets and also inside a line, the reader makes the same callback
  calls in the same order as for the whole stream delivered in one chunk. The decoder is
  any streaming text decoder.
\<close>

theorem fragmentation_invariance:
  assumes "streaming decode" and "concat reads = stream"
  shows "streamRequest P decode d0 (Ok reads e) =
         streamRequest P decode d0 (Ok [stream] e)"
  using assms stream_events [of decode P d0 reads e] stream_events [of decode P d0 "[stream]" e]
  by simp

theorem fragmentation_invariance_witness:
  \<open>streaming ascii_decode \<and>
   concat [''data: {"type":"sta'', ''tus","status":"Thinking"}\<newline>da'',
           ''ta: {"type":"done","thread_id":"abc123"}\<newline>''] =
     ''data: {"type":"status","status":"Thinking"}\<newline>data: {"type":"done","thread_id":"abc123"}\<newline>'' \<and>
   streamRequest JS ascii_decode ()
     (Ok [''data: {"type":"sta'', ''tus","status":"Thinking"}\<newline>da'',
          ''ta: {"type":"done","thread_id":"abc123"}\<newline>''] None) =
   streamRequest JS ascii_decode ()
     (Ok [''data: {"type":"status","status":"Thinking"}\<newline>data: {"type":"done","thread_id":"abc123"}\<newline>''] None) \<and>
   streamRequest JS ascii_decode ()
     (Ok [''data: {"type":"sta'', ''tus","status":"Thinking"}\<newline>da'',
          ''ta: {"type":"done","thread_id":"abc123"}\<newline>''] None) =
   [Status (JStr ''Thinking''), Done (JStr ''abc123'')]\<close>
proof -
  have c: \<open>concat [''data: {"type":"sta'', ''tus","status":"Thinking"}\<newline>da'',
           ''ta: {"type":"done","thread_id":"abc123"}\<newline>''] =
     ''data: {"type":"status","status":"Thinking"}\<newline>data: {"type":"done","thread_id":"abc123"}\<newline>''\<close>
    by simp
  have run: \<open>streamRequest JS ascii_decode ()
     (Ok [''data: {"type":"sta'', ''tus","status":"Thinking"}\<newline>da'',
          ''ta: {"type":"done","thread_id":"abc123"}\<newline>''] None) =
   [Status (JStr ''Thinking''), Done (JStr ''abc123'')]\<close>
    by code_simp
  from fragmentation_invariance [OF streaming_ascii_decode c, of JS "()" None]
    streaming_ascii_decode c run
  show ?thesis by blast
qed

lemma process_line_malformed:
  "JSON_parse P (trim payload) = None \<Longrightarrow> process_line P (''data: '' @ payload) = []"
  by (simp add: process_line_def startsWith_def dispatch_def Let_def)

text \<open>
  C7. A \<^verbatim>\<open>data: \<close> line whose payload fails to parse as JSON yields no event, no error
  event either, and does not end the stream: the events of the stream are those of the
  lines before it followed by those of the lines after it. The stream is any sequence of
  complete lines followed by an unfinished one, which may be empty.
\<close>

theorem malformed_line_dropped:
  assumes "streaming decode"
    and "JSON_parse P (trim payload) = None"
    and "nl \<notin> set payload"
    and "\<forall>l \<in> set (before @ after). nl \<notin> set l"
    and "nl \<notin> set unfinished"
    and "fst (decode d0 (concat reads)) =
           concat (map (\<lambda>l. l @ [nl]) (before @ [''data: '' @ payload] @ after)) @ unfinished"
  shows "streamRequest P decode d0 (Ok reads e) =
           concat (map (process_line P) before) @ concat (map (process_line P) after) @
           on_failure e"
proof -
  let ?ls = "before @ [''data: '' @ payload] @ after"
  have "nl \<notin> set ''data: ''" by (simp add: nl_def)
  with assms(3,4) have "\<forall>l \<in> set ?ls. nl \<notin> set l" by auto
  then have "split_on nl (concat (map (\<lambda>l. l @ [nl]) ?ls) @ unfinished) = ?ls @ [unfinished]"
    using assms(5) by (rule split_on_terminated)
  with assms(6) have "butlast (split_on nl (fst (decode d0 (concat reads)))) = ?ls"
    by (simp add: butlast_append)
  with stream_events [OF assms(1), of P d0 reads e] process_line_malformed [OF assms(2)]
  show ?thesis by simp
qed

theorem malformed_line_dropped_witness:
  \<open>streaming ascii_decode \<and>
   JSON_parse JS (trim ''{not json'') = None \<and>
   nl \<notin> set ''{not json'' \<and>
   nl \<notin> set ''data: {"type":"status","status":"Thinking"}'' \<and>
   nl \<notin> set ''data: {"type":"done","thread_id":"abc123"}'' \<and>
   nl \<notin> set ''data: {"ty'' \<and>
   streamRequest JS ascii_decode ()
     (Ok [''data: {"type":"status","status":"Thinking"}\<newline>data: {not json\<newline>data: {"type":"done","thread_id":"abc123"}\<newline>data: {"ty''] None) =
   [Status (JStr ''Thinking''), Done (JStr ''abc123'')]\<close>
proof -
  have h2: \<open>JSON_parse JS (trim ''{not json'') = None\<close>
    by code_simp
  have h3: \<open>nl \<notin> set ''{not json''\<close>
    by (simp add: nl_def)
  have h4: \<open>\<forall>l \<in> set ([''data: {"type":"status","status":"Thinking"}''] @
                 [''data: {"type":"done","thread_id":"abc123"}'']). nl \<notin> set l\<close>
    by (simp add: nl_def)
  have h5: \<open>nl \<notin> set ''data: {"ty''\<close>
    by (simp add: nl_def)
  have h6: \<open>fst (ascii_decode ()
      (concat [''data: {"type":"status","status":"Thinking"}\<newline>data: {not json\<newline>data: {"type":"done","thread_id":"abc123"}\<newline>data: {"ty''])) =
    concat (map (\<lambda>l. l @ [nl])
      ([''data: {"type":"status","status":"Thinking"}''] @ [''data: '' @ ''{not json''] @
       [''data: {"type":"done","thread_id":"abc123"}''])) @ ''data: {"ty''\<close>
    by (simp add: ascii_decode_def nl_def)
  have before: \<open>concat (map (process_line JS) [''data: {"type":"status","status":"Thinking"}'']) =
      [Status (JStr ''Thinking'')]\<close>
    by code_simp
  have after: \<open>concat (map (process_line JS) [''data: {"type":"done","thread_id":"abc123"}'']) =
      [Done (JStr ''abc123'')]\<close>
    by code_simp
  from malformed_line_dropped [OF streaming_ascii_decode h2 h3 h4 h5 h6, of None]
  have \<open>streamRequest JS ascii_decode ()
     (Ok [''data: {"type":"status","status":"Thinking"}\<newline>data: {not json\<newline>data: {"type":"done","thread_id":"abc123"}\<newline>data: {"ty''] None) =
   [Status (JStr ''Thinking''), Done (JStr ''abc123'')]\<close>
    unfolding before after by simp
  with streaming_ascii_decode h2 h3 h4 h5 show ?thesis by simp
qed

text \<open>
  The reader on a stream in which a \<^verbatim>\<open>done\<close> event and the line \<^verbatim>\<open>data: [DONE]\<close> are followed
  by further lines: a message, an error and a status event are still delivered.
\<close>

theorem decoding_continues_after_terminal:
  \<open>streamRequest JS ascii_decode ()
     (Ok [''data: {"type":"done","thread_id":"abc123"}\<newline>data: [DONE]\<newline>data: {"type":"message","content":"late"}\<newline>data: {"type":"error","error":"boom"}\<newline>data: {"type":"status","status":"still reading"}\<newline>''] None) =
   [Done (JStr ''abc123''), Message (JStr ''late''), Error (JStr ''boom''),
    Status (JStr ''still reading'')]\<close>
  by code_simp

text \<open>
  C5, as the code has it. The read loop has no exit on a \<^verbatim>\<open>done\<close> or \<^verbatim>\<open>error\<close> event or on
  \<^verbatim>\<open>data: [DONE]\<close>: it ends only when the transport reports the end of the body or fails.
  Every complete line received before that is processed in arrival order, whatever came
  before it, and \<^verbatim>\<open>data: [DONE]\<close> is dropped as a line that fails to parse.
\<close>

theorem no_stop_at_terminal:
  assumes "streaming decode"
    and "\<forall>l \<in> set ls. nl \<notin> set l"
    and "nl \<notin> set unfinished"
    and "fst (decode d0 (concat reads)) = concat (map (\<lambda>l. l @ [nl]) ls) @ unfinished"
  shows "streamRequest P decode d0 (Ok reads e) =
           concat (map (process_line P) ls) @ on_failure e \<and>
         (JSON_parse P ''[DONE]'' = None \<longrightarrow> process_line P ''data: [DONE]'' = [])"
proof -
  from assms(2,3)
  have "split_on nl (concat (map (\<lambda>l. l @ [nl]) ls) @ unfinished) = ls @ [unfinished]"
    by (rule split_on_terminated)
  with assms(4) have "butlast (split_on nl (fst (decode d0 (concat reads)))) = ls"
    by simp
  with stream_events [OF assms(1), of P d0 reads e]
  have "streamRequest P decode d0 (Ok reads e) =
           concat (map (process_line P) ls) @ on_failure e" by simp
  moreover have "JSON_parse P ''[DONE]'' = None \<longrightarrow> process_line P ''data: [DONE]'' = []"
    by (simp add: process_line_def startsWith_def dispatch_def Let_def trim_def is_space_def)
  ultimately show ?thesis by simp
qed

theorem no_stop_at_terminal_witness:
  \<open>streaming ascii_decode \<and>
   nl \<notin> set ''data: {"type":"done","thread_id":"abc123"}'' \<and>
   nl \<notin> set ''data: [DONE]'' \<and>
   nl \<notin> set ''data: {"type":"message","content":"late"}'' \<and>
   JSON_parse JS ''[DONE]'' = None \<and>
   streamRequest JS ascii_decode ()
     (Ok [''data: {"type":"done","thread_id":"abc123"}\<newline>data: [DO'',
          ''NE]\<newline>data: {"type":"message","content":"late"}\<newline>''] None) =
   concat (map (process_line JS)
     [''data: {"type":"done","thread_id":"abc123"}'', ''data: [DONE]'',
      ''data: {"type":"message","content":"late"}'']) @ on_failure None \<and>
   process_line JS ''data: [DONE]'' = []\<close>
proof -
  have h2: \<open>\<forall>l \<in> set [''data: {"type":"done","thread_id":"abc123"}'', ''data: [DONE]'',
                ''data: {"type":"message","content":"late"}'']. nl \<notin> set l\<close>
    by (simp add: nl_def)
  have h3: \<open>nl \<notin> set []\<close>
    by simp
  have h3': \<open>fst (ascii_decode ()
      (concat [''data: {"type":"done","thread_id":"abc123"}\<newline>data: [DO'',
               ''NE]\<newline>data: {"type":"message","content":"late"}\<newline>''])) =
    concat (map (\<lambda>l. l @ [nl])
      [''data: {"type":"done","thread_id":"abc123"}'', ''data: [DONE]'',
       ''data: {"type":"message","content":"late"}'']) @ []\<close>
    by (simp add: ascii_decode_def nl_def)
  have h4: \<open>JSON_parse JS ''[DONE]'' = None\<close>
    by code_simp
  from no_stop_at_terminal [OF streaming_ascii_decode h2 h3 h3', of JS None]
    streaming_ascii_decode h2 h4
  show ?thesis by simp
qed

text \<open>
  C10. For a message event whose content is a string: when the content parses as JSON the
  callback receives the parsed value serialized again with two-space indentation, and when
  it does not parse the callback receives the content as it is.
\<close>

theorem message_content_reserialized:
  assumes "trim data \<noteq> []"
    and "JSON_parse P (trim data) = Some parsed"
    and "getprop parsed ''type'' = Some (JStr ''message'')"
    and "getprop parsed ''content'' = Some (JStr content)"
  shows "process_line P (''data: '' @ data) =
           [Message (case JSON_parse P content of
                       Some contentObj \<Rightarrow> JStr (JSON_stringify2 P contentObj)
                     | None \<Rightarrow> JStr content)]"
  using assms
  by (simp add: process_line_def startsWith_def dispatch_def Let_def deliver_def)

theorem message_content_reserialized_witness:
  \<open>trim (''{"type":"message","content":"{'' @ [bsl, dq] @ ''a'' @ [bsl, dq] @ '':1}"}'') \<noteq> [] \<and>
   JSON_parse JS (trim (''{"type":"message","content":"{'' @ [bsl, dq] @ ''a'' @ [bsl, dq] @ '':1}"}'')) =
     Some (JObj [(''type'', JStr ''message''), (''content'', JStr ''{"a":1}'')]) \<and>
   getprop (JObj [(''type'', JStr ''message''), (''content'', JStr ''{"a":1}'')]) ''type'' =
     Some (JStr ''message'') \<and>
   getprop (JObj [(''type'', JStr ''message''), (''content'', JStr ''{"a":1}'')]) ''content'' =
     Some (JStr ''{"a":1}'') \<and>
   process_line JS (''data: '' @ ''{"type":"message","content":"{'' @ [bsl, dq] @ ''a'' @ [bsl, dq] @ '':1}"}'') =
     [Message (JStr ''{\<newline>  "a": 1\<newline>}'')] \<and>
   process_line JS (''data: '' @ ''{"type":"message","content":"Roof is fine."}'') =
     [Message (JStr ''Roof is fine.'')]\<close>
proof -
  let ?d = \<open>''{"type":"message","content":"{'' @ [bsl, dq] @ ''a'' @ [bsl, dq] @ '':1}"}''\<close>
  let ?p = \<open>JObj [(''type'', JStr ''message''), (''content'', JStr ''{"a":1}'')] :: jsnum jsval\<close>
  have h1: \<open>trim ?d \<noteq> []\<close> by code_simp
  have h2: \<open>JSON_parse JS (trim ?d) = Some ?p\<close> by code_simp
  have h3: \<open>getprop ?p ''type'' = Some (JStr ''message'')\<close> by simp
  have h4: \<open>getprop ?p ''content'' = Some (JStr ''{"a":1}'')\<close> by simp
  have c: \<open>(case JSON_parse JS ''{"a":1}'' of
              Some contentObj \<Rightarrow> JStr (JSON_stringify2 JS contentObj)
            | None \<Rightarrow> JStr ''{"a":1}'') = (JStr ''{\<newline>  "a": 1\<newline>}'' :: jsnum jsval)\<close>
    by code_simp
  let ?e = \<open>''{"type":"message","content":"Roof is fine."}''\<close>
  let ?q = \<open>JObj [(''type'', JStr ''message''), (''content'', JStr ''Roof is fine.'')] :: jsnum jsval\<close>
  have g1: \<open>trim ?e \<noteq> []\<close> by code_simp
  have g2: \<open>JSON_parse JS (trim ?e) = Some ?q\<close> by code_simp
  have g3: \<open>getprop ?q ''type'' = Some (JStr ''message'')\<close> by simp
  have g4: \<open>getprop ?q ''content'' = Some (JStr ''Roof is fine.'')\<close> by simp
  have e: \<open>(case JSON_parse JS ''Roof is fine.'' of
              Some contentObj \<Rightarrow> JStr (JSON_stringify2 JS contentObj)
            | None \<Rightarrow> JStr ''Roof is fine.'') = (JStr ''Roof is fine.'' :: jsnum jsval)\<close>
    by code_simp
  from message_content_reserialized [OF h1 h2 h3 h4] message_content_reserialized [OF g1 g2 g3 g4]
    h1 h2 h3 h4 c e
  show ?thesis by simp
qed

section \<open>Chunk classifier: which message replaces the draft\<close>

text \<open>
  A report whose \<^verbatim>\<open>overall_grade\<close> is \<^verbatim>\<open>null\<close> is classified final and replaces the draft,
  although no alias has a value that is not null. A report whose only grade key is
  \<^verbatim>\<open>overall\<close> is set aside as partial data.
\<close>

theorem final_classification_counterexample:
  \<open>classify JS ''{"scores":{"overall_grade":null}}'' = Final \<and>
   onMessage JS ''{"scores":{"overall_grade":null}}'' ''draft'' = ''{"scores":{"overall_grade":null}}'' \<and>
   classify JS ''{"scores":{"overall":80}}'' = Partial \<and>
   onMessage JS ''{"scores":{"overall":80}}'' ''draft'' = ''draft''\<close>
  by code_simp

lemma classify_Final_iff:
  "classify P message = Final \<longleftrightarrow>
     (\<exists>parsed scores.
        JSON_parse P message = Some parsed \<and>
        getprop parsed ''scores'' = Some scores \<and>
        truthy P scores \<and>
        (getprop scores ''overall_transparency_grade'' \<noteq> Some JUndefined \<or>
         getprop scores ''overall_grade'' \<noteq> Some JUndefined))"
  by (auto simp: classify_def split: option.splits)

text \<open>
  C3, as the code has it. The test is \<^verbatim>\<open>!== undefined\<close>: an alias counts as present when the
  key is there, whatever its value, \<^verbatim>\<open>null\<close> included. For a message in which \<^verbatim>\<open>overall\<close> is
  not the only alias present, the message is classified final exactly when it parses as
  JSON, the \<^verbatim>\<open>scores\<close> field of the parsed value is truthy and some alias among
  \<^verbatim>\<open>overall_transparency_grade\<close>, \<^verbatim>\<open>overall_grade\<close>, \<^verbatim>\<open>overall\<close> is present in it. A final
  message replaces the draft; any other message leaves the draft as it was or appends to
  it.
\<close>

theorem final_classification:
  assumes "\<forall>parsed scores.
             JSON_parse P message = Some parsed \<longrightarrow>
             getprop parsed ''scores'' = Some scores \<longrightarrow>
             getprop scores ''overall'' = Some JUndefined \<or>
             getprop scores ''overall_transparency_grade'' \<noteq> Some JUndefined \<or>
             getprop scores ''overall_grade'' \<noteq> Some JUndefined \<or>
             \<not> truthy P scores"
  shows "(classify P message = Final \<longleftrightarrow>
           (\<exists>parsed scores.
              JSON_parse P message = Some parsed \<and>
              getprop parsed ''scores'' = Some scores \<and>
              truthy P scores \<and>
              (\<exists>alias \<in> set [''overall_transparency_grade'', ''overall_grade'', ''overall''].
                 getprop scores alias \<noteq> Some JUndefined))) \<and>
         (classify P message = Final \<longrightarrow> onMessage P message prev = message) \<and>
         (classify P message \<noteq> Final \<longrightarrow>
            onMessage P message prev = prev \<or> onMessage P message prev = prev @ message)"
proof (intro conjI)
  show "classify P message = Final \<longleftrightarrow>
           (\<exists>parsed scores.
              JSON_parse P message = Some parsed \<and>
              getprop parsed ''scores'' = Some scores \<and>
              truthy P scores \<and>
              (\<exists>alias \<in> set [''overall_transparency_grade'', ''overall_grade'', ''overall''].
                 getprop scores alias \<noteq> Some JUndefined))"
  proof
    assume "classify P message = Final"
    then show "\<exists>parsed scores.
              JSON_parse P message = Some parsed \<and>
              getprop parsed ''scores'' = Some scores \<and>
              truthy P scores \<and>
              (\<exists>alias \<in> set [''overall_transparency_grade'', ''overall_grade'', ''overall''].
                 getprop scores alias \<noteq> Some JUndefined)"
      unfolding classify_Final_iff by auto
  next
    assume "\<exists>parsed scores.
              JSON_parse P message = Some parsed \<and>
              getprop parsed ''scores'' = Some scores \<and>
              truthy P scores \<and>
              (\<exists>alias \<in> set [''overall_transparency_grade'', ''overall_grade'', ''overall''].
                 getprop scores alias \<noteq> Some JUndefined)"
    then obtain parsed scores where p: "JSON_parse P message = Some parsed"
      and s: "getprop parsed ''scores'' = Some scores" and t: "truthy P scores"
      and a: "getprop scores ''overall_transparency_grade'' \<noteq> Some JUndefined \<or>
              getprop scores ''overall_grade'' \<noteq> Some JUndefined \<or>
              getprop scores ''overall'' \<noteq> Some JUndefined"
      by auto
    from assms p s t a
    have "getprop scores ''overall_transparency_grade'' \<noteq> Some JUndefined \<or>
          getprop scores ''overall_grade'' \<noteq> Some JUndefined"
      by blast
    with p s t show "classify P message = Final"
      unfolding classify_Final_iff by blast
  qed
next
  show "classify P message = Final \<longrightarrow> onMessage P message prev = message"
    by (simp add: onMessage_def)
next
  show "classify P message \<noteq> Final \<longrightarrow>
      onMessage P message prev = prev \<or> onMessage P message prev = prev @ message"
    by (cases "classify P message") (auto simp: onMessage_def appendIncremental_def)
qed

theorem final_classification_witness:
  \<open>JSON_parse JS ''{"scores":{"overall_grade":null}}'' =
     Some (JObj [(''scores'', JObj [(''overall_grade'', JNull)])]) \<and>
   getprop (JObj [(''overall_grade'', JNull)] :: jsnum jsval) ''overall'' = Some JUndefined \<and>
   classify JS ''{"scores":{"overall_grade":null}}'' = Final \<and>
   onMessage JS ''{"scores":{"overall_grade":null}}'' ''draft'' = ''{"scores":{"overall_grade":null}}'' \<and>
   JSON_parse JS ''Roof is fine.'' = None \<and>
   classify JS ''Roof is fine.'' \<noteq> Final \<and>
   onMessage JS ''Roof is fine.'' ''draft'' = ''draft'' @ ''Roof is fine.''\<close>
proof -
  let ?m = \<open>''{"scores":{"overall_grade":null}}''\<close>
  let ?s = \<open>JObj [(''overall_grade'', JNull)] :: jsnum jsval\<close>
  have p: \<open>JSON_parse JS ?m = Some (JObj [(''scores'', ?s)])\<close> by code_simp
  have o: \<open>getprop ?s ''overall'' = Some JUndefined\<close> by simp
  have h: \<open>\<forall>parsed scores.
             JSON_parse JS ?m = Some parsed \<longrightarrow>
             getprop parsed ''scores'' = Some scores \<longrightarrow>
             getprop scores ''overall'' = Some JUndefined \<or>
             getprop scores ''overall_transparency_grade'' \<noteq> Some JUndefined \<or>
             getprop scores ''overall_grade'' \<noteq> Some JUndefined \<or>
             \<not> truthy JS scores\<close>
    using p by auto
  have ex: \<open>\<exists>parsed scores.
        JSON_parse JS ?m = Some parsed \<and>
        getprop parsed ''scores'' = Some scores \<and>
        truthy JS scores \<and>
        (\<exists>alias \<in> set [''overall_transparency_grade'', ''overall_grade'', ''overall''].
           getprop scores alias \<noteq> Some JUndefined)\<close>
    using p by auto
  let ?t = \<open>''Roof is fine.''\<close>
  have q: \<open>JSON_parse JS ?t = None\<close> by code_simp
  have g: \<open>\<forall>parsed scores.
             JSON_parse JS ?t = Some parsed \<longrightarrow>
             getprop parsed ''scores'' = Some scores \<longrightarrow>
             getprop scores ''overall'' = Some JUndefined \<or>
             getprop scores ''overall_transparency_grade'' \<noteq> Some JUndefined \<or>
             getprop scores ''overall_grade'' \<noteq> Some JUndefined \<or>
             \<not> truthy JS scores\<close>
    using q by simp
  have i: \<open>onMessage JS ?t ''draft'' \<noteq> ''draft''\<close> by code_simp
  from final_classification [OF h, of "''draft''"] final_classification [OF g, of "''draft''"]
    ex p o q i
  show ?thesis by simp
qed

section \<open>Report accumulator: messages after the final report\<close>

text \<open>
  A final report followed by narration: the narration is appended to the report.
\<close>

theorem latch_counterexample:
  \<open>classify JS ''{"scores":{"overall_grade":72}}'' = Final \<and>
   classify JS '' Roof is fine.'' = Incremental \<and>
   draft_after JS [''{"scores":{"overall_grade":72}}''] = ''{"scores":{"overall_grade":72}}'' \<and>
   draft_after JS [''{"scores":{"overall_grade":72}}'', '' Roof is fine.''] =
     ''{"scores":{"overall_grade":72}} Roof is fine.''\<close>
  by code_simp

lemma draft_after_snoc:
  "draft_after P (ms @ [m]) = onMessage P m (draft_after P ms)"
  by (simp add: draft_after_def)

text \<open>
  C2, as the code has it. There is no finalization latch: the callback keeps no flag, and a
  message after the final report goes through the same classification as any other. Once a
  final message has replaced the draft, a following partial-JSON message leaves the draft
  unchanged and so does incremental text that already occurs in the draft, but incremental
  text that does not occur in it is appended and another final message replaces the draft.
\<close>

theorem no_finalization_latch:
  assumes "classify P final = Final"
  shows "draft_after P (earlier @ [final]) = final \<and>
         draft_after P (earlier @ [final, m]) =
           (case classify P m of
              Final \<Rightarrow> m
            | Partial \<Rightarrow> final
            | Incremental \<Rightarrow> if (\<exists>a b. final = a @ m @ b) then final else final @ m)"
proof -
  have f: "draft_after P (earlier @ [final]) = final"
    using assms by (simp add: draft_after_snoc onMessage_def)
  have "draft_after P (earlier @ [final, m]) = onMessage P m (draft_after P (earlier @ [final]))"
    using draft_after_snoc [of P "earlier @ [final]" m] by simp
  with f show ?thesis
    by (simp add: onMessage_def appendIncremental_def includes_iff split: chunk_class.splits)
qed

theorem no_finalization_latch_witness:
  \<open>classify JS ''{"scores":{"overall_grade":72}}'' = Final \<and>
   draft_after JS ([''Checking records''] @ [''{"scores":{"overall_grade":72}}'']) =
     ''{"scores":{"overall_grade":72}}'' \<and>
   draft_after JS ([''Checking records''] @ [''{"scores":{"overall_grade":72}}'', ''{"property":{"address":"1 Main St"}}'']) =
     ''{"scores":{"overall_grade":72}}'' \<and>
   draft_after JS ([''Checking records''] @ [''{"scores":{"overall_grade":72}}'', '' Roof is fine.'']) =
     ''{"scores":{"overall_grade":72}} Roof is fine.''\<close>
proof -
  let ?f = \<open>''{"scores":{"overall_grade":72}}''\<close>
  have h: \<open>classify JS ?f = Final\<close> by code_simp
  have p: \<open>classify JS ''{"property":{"address":"1 Main St"}}'' = Partial\<close> by code_simp
  have i: \<open>classify JS '' Roof is fine.'' = Incremental\<close> by code_simp
  have n: \<open>\<not> (\<exists>a b. ?f = a @ '' Roof is fine.'' @ b)\<close>
    using includes_iff [of ?f "'' Roof is fine.''"] by (simp add: startsWith_def)
  from no_finalization_latch [OF h, of "[''Checking records'']" "''{\"property\":{\"address\":\"1 Main St\"}}''"]
    no_finalization_latch [OF h, of "[''Checking records'']" "'' Roof is fine.''"]
    h p i n
  show ?thesis by simp
qed

section \<open>Report normalizer: fenced and bare JSON\<close>

text \<open>
  C4. The report \<^verbatim>\<open>parseReport\<close> makes from a JSON document inside a \<^verbatim>\<open>```json\<close> fence should
  equal the one it makes from the same document bare. On the document
  \<^verbatim>\<open>{"scores":{"overall_grade":72}}\<close> it does not: the fenced branch returns the parsed value
  as it is, with the score still under \<^verbatim>\<open>overall_grade\<close>, while the bare branch returns the
  normalized report with the score under \<^verbatim>\<open>overall\<close>. The two agree on a document whose
  scores already have the names \<^verbatim>\<open>overall\<close>, \<^verbatim>\<open>quality\<close> and \<^verbatim>\<open>financial\<close>.
\<close>

theorem fenced_report_not_normalized:
  \<open>parseReport JS ''```json\<newline>{"scores":{"overall_grade":72}}\<newline>```'' =
     JObj [(''scores'', JObj [(''overall_grade'', JNum (Num 72))])] \<and>
   parseReport JS ''{"scores":{"overall_grade":72}}'' =
     JObj [(''scores'', JObj [(''overall'', JNum (Num 72)), (''quality'', JUndefined),
                              (''financial'', JUndefined)])] \<and>
   parseReport JS ''```json\<newline>{"scores":{"overall":80,"quality":90,"financial":70}}\<newline>```'' =
     parseReport JS ''{"scores":{"overall":80,"quality":90,"financial":70}}''\<close>
  by code_simp

section \<open>Report normalizer: the raw-text fallback\<close>

text \<open>
  A response that is bare JSON with a \<^verbatim>\<open>property\<close> field and no \<^verbatim>\<open>scores\<close> field: no score
  can be resolved from it, and \<^verbatim>\<open>parseReport\<close> returns \<^verbatim>\<open>null\<close>, which carries no
  \<^verbatim>\<open>full_text\<close>.
\<close>

theorem property_only_gives_null:
  \<open>parseReport JS ''{"property":{"address":"1 Main St"}}'' = JNull \<and>
   getprop (parseReport JS ''{"property":{"address":"1 Main St"}}'') ''full_text'' = None\<close>
  by code_simp

lemma map_of_obj_put: "map_of (obj_put kvs k v) k = Some v"
  by (induction kvs) auto

lemma full_text_put:
  "getprop (JObj (obj_put kvs ''full_text'' (JStr response))) ''full_text'' = Some (JStr response)"
  by (simp add: map_of_obj_put)

lemma full_text_markdown:
  "getprop (markdown_report P response) ''full_text'' = Some (JStr response)"
  by (simp add: markdown_report_def Let_def)

text \<open>
  C8, as the code has it. \<^verbatim>\<open>parseReport\<close> never raises: every exception of its body is
  caught, and the model is a total function whose result is a value. For a response that is
  not empty and from which no score is resolved, the result carries the response as
  \<^verbatim>\<open>full_text\<close>, whether or not any label pattern matches, with one exception: bare JSON
  whose \<^verbatim>\<open>property\<close> field is truthy and whose \<^verbatim>\<open>scores\<close> field is falsy gives \<^verbatim>\<open>null\<close>. No
  score is resolved when a fenced block fails to parse, when the response without a fenced
  block is not JSON or is JSON \<^verbatim>\<open>null\<close>, and when it is JSON in which \<^verbatim>\<open>scores\<close> is falsy or
  resolves none of the three scores.
\<close>

theorem parseReport_fallback:
  assumes "response \<noteq> []"
  shows "(\<forall>whole c rest.
            re_search RE_jsonMatch response = Some (whole, c, rest) \<longrightarrow>
            JSON_parse P (grp c 1) = None \<longrightarrow>
            parseReport P response = JObj [(''full_text'', JStr response)]) \<and>
         (re_search RE_jsonMatch response = None \<longrightarrow>
            (JSON_parse P response = None \<or>
             (\<exists>parsed. JSON_parse P response = Some parsed \<and> getprop parsed ''scores'' = None)) \<longrightarrow>
            getprop (parseReport P response) ''full_text'' = Some (JStr response)) \<and>
         (\<forall>parsed scores.
            re_search RE_jsonMatch response = None \<longrightarrow>
            JSON_parse P response = Some parsed \<longrightarrow>
            getprop parsed ''scores'' = Some scores \<longrightarrow>
            \<not> has_score P parsed scores \<longrightarrow>
            (if truthy P (optprop parsed ''property'') \<and> \<not> truthy P scores
             then parseReport P response = JNull
             else getprop (parseReport P response) ''full_text'' = Some (JStr response)))"
proof (intro conjI allI impI)
  fix whole c rest
  assume "re_search RE_jsonMatch response = Some (whole, c, rest)"
    and "JSON_parse P (grp c 1) = None"
  with assms show "parseReport P response = JObj [(''full_text'', JStr response)]"
    by (simp add: parseReport_def)
next
  assume nf: "re_search RE_jsonMatch response = None"
    and "JSON_parse P response = None \<or>
         (\<exists>parsed. JSON_parse P response = Some parsed \<and> getprop parsed ''scores'' = None)"
  then have "parse_whole P response = FallThrough"
    by (auto simp: parse_whole_def)
  with assms nf show "getprop (parseReport P response) ''full_text'' = Some (JStr response)"
    by (simp add: parseReport_def full_text_markdown)
next
  fix parsed scores
  assume nf: "re_search RE_jsonMatch response = None"
    and p: "JSON_parse P response = Some parsed"
    and s: "getprop parsed ''scores'' = Some scores"
    and n: "\<not> has_score P parsed scores"
  show "if truthy P (optprop parsed ''property'') \<and> \<not> truthy P scores
        then parseReport P response = JNull
        else getprop (parseReport P response) ''full_text'' = Some (JStr response)"
    using assms nf p s n
    by (simp add: parseReport_def parse_whole_def full_text_put del: getprop.simps)
qed

theorem parseReport_fallback_witness:
  \<open>''```json\<newline>{oops\<newline>```'' \<noteq> [] \<and>
   re_search RE_jsonMatch ''```json\<newline>{oops\<newline>```'' =
     Some (''```json\<newline>{oops\<newline>```'', [(1, ''{oops'')], []) \<and>
   JSON_parse JS (grp [(1, ''{oops'')] 1) = None \<and>
   parseReport JS ''```json\<newline>{oops\<newline>```'' =
     JObj [(''full_text'', JStr ''```json\<newline>{oops\<newline>```'')] \<and>
   re_search RE_jsonMatch ''Roof is fine.'' = None \<and>
   JSON_parse JS ''Roof is fine.'' = None \<and>
   getprop (parseReport JS ''Roof is fine.'') ''full_text'' = Some (JStr ''Roof is fine.'') \<and>
   re_search RE_jsonMatch ''{"note":"x"}'' = None \<and>
   JSON_parse JS ''{"note":"x"}'' = Some (JObj [(''note'', JStr ''x'')]) \<and>
   \<not> has_score JS (JObj [(''note'', JStr ''x'')]) JUndefined \<and>
   getprop (parseReport JS ''{"note":"x"}'') ''full_text'' = Some (JStr ''{"note":"x"}'') \<and>
   re_search RE_jsonMatch ''{"property":{"address":"1 Main St"}}'' = None \<and>
   JSON_parse JS ''{"property":{"address":"1 Main St"}}'' =
     Some (JObj [(''property'', JObj [(''address'', JStr ''1 Main St'')])]) \<and>
   parseReport JS ''{"property":{"address":"1 Main St"}}'' = JNull\<close>
proof -
  let ?r1 = \<open>''```json\<newline>{oops\<newline>```''\<close>
  have a1: \<open>re_search RE_jsonMatch ?r1 = Some (?r1, [(1, ''{oops'')], [])\<close> by code_simp
  have a2: \<open>JSON_parse JS (grp [(1, ''{oops'')] 1) = None\<close> by code_simp
  have A: \<open>parseReport JS ?r1 = JObj [(''full_text'', JStr ?r1)]\<close>
    using parseReport_fallback [of ?r1 JS] a1 a2 by simp
  let ?r2 = \<open>''Roof is fine.''\<close>
  have b1: \<open>re_search RE_jsonMatch ?r2 = None\<close> by code_simp
  have b2: \<open>JSON_parse JS ?r2 = None\<close> by code_simp
  have B: \<open>getprop (parseReport JS ?r2) ''full_text'' = Some (JStr ?r2)\<close>
    using parseReport_fallback [of ?r2 JS] b1 b2 by simp
  let ?r3 = \<open>''{"note":"x"}''\<close>
  let ?p3 = \<open>JObj [(''note'', JStr ''x'')] :: jsnum jsval\<close>
  have c1: \<open>re_search RE_jsonMatch ?r3 = None\<close> by code_simp
  have c2: \<open>JSON_parse JS ?r3 = Some ?p3\<close> by code_simp
  have c3: \<open>getprop ?p3 ''scores'' = Some JUndefined\<close> by simp
  have c4: \<open>\<not> has_score JS ?p3 JUndefined\<close> by (simp add: has_score_def)
  have c5: \<open>\<not> truthy JS (optprop ?p3 ''property'')\<close> by (simp add: optprop_def)
  have C: \<open>getprop (parseReport JS ?r3) ''full_text'' = Some (JStr ?r3)\<close>
    using parseReport_fallback [of ?r3 JS] c1 c2 c3 c4 c5 by simp
  let ?r4 = \<open>''{"property":{"address":"1 Main St"}}''\<close>
  let ?p4 = \<open>JObj [(''property'', JObj [(''address'', JStr ''1 Main St'')])] :: jsnum jsval\<close>
  have d1: \<open>re_search RE_jsonMatch ?r4 = None\<close> by code_simp
  have d2: \<open>JSON_parse JS ?r4 = Some ?p4\<close> by code_simp
  have d3: \<open>getprop ?p4 ''scores'' = Some JUndefined\<close> by simp
  have d4: \<open>\<not> has_score JS ?p4 JUndefined\<close> by (simp add: has_score_def)
  have d5: \<open>truthy JS (optprop ?p4 ''property'') \<and> \<not> truthy JS JUndefined\<close>
    by (simp add: optprop_def)
  have D: \<open>parseReport JS ?r4 = JNull\<close>
    using parseReport_fallback [of ?r4 JS] d1 d2 d3 d4 d5 by simp
  from a1 a2 A b1 b2 B c1 c2 c4 C d1 d2 D show ?thesis by simp
qed

section \<open>Stream lifetime: the cleanup function\<close>

text \<open>
  C9. Starting a new analysis or leaving the view should abort the stream in flight before
  a new one is created. In the code the cleanup function that \<^verbatim>\<open>triggerWatsonAnalysis\<close>
  returns is dropped by \<^verbatim>\<open>fetchProperty\<close> and the effect registers no cleanup: after the view
  has shown two properties and has been left, both controllers exist and neither has been
  aborted.
\<close>

theorem cleanup_never_invoked:
  "view_after [Shown True, Shown True, Unmounted] = [False, False] \<and>
   unaborted (view_after [Shown True, Shown True, Unmounted]) = 2"
  by (simp add: view_after_def fetchProperty_def triggerWatsonAnalysis_def
      streamWatsonAnalysis_def unaborted_def)

end
